theory Spec2Isabelle
  imports Complex_Main "HOL-Library.Multiset"
begin

section \<open>Data model\<close>

text \<open>
  The records follow the TypeScript interfaces of \<^verbatim>\<open>types/index.ts\<close> and
  \<^verbatim>\<open>services/api.ts\<close>. Field names carry a prefix, since record fields are
  constants of the theory. JavaScript numbers that hold coordinates are modelled as
  \<^typ>\<open>real\<close>: the only arithmetic on them is \<^verbatim>\<open>col * 200 + 100\<close> on small
  integers and the comparison \<^verbatim>\<open>Math.abs(pos.x - x) < 50\<close>.
\<close>

datatype agent_status = Stopped | Starting | Running | Errored | Stopping

text \<open>Interface \<^verbatim>\<open>ApiAgent\<close> and its \<^verbatim>\<open>config\<close>.\<close>

record api_config =
  cfg_id :: string
  cfg_name :: string
  cfg_type :: string
  cfg_port :: nat
  cfg_model :: string
  cfg_prompt :: "string option"
  cfg_openai_api_key :: string

record api_agent =
  api_id :: string
  api_config :: api_config
  api_status :: agent_status
  api_pid :: "nat option"
  api_url :: "string option"
  api_error_message :: "string option"
  api_last_health_check :: "string option"

text \<open>Interface \<^verbatim>\<open>ApiConnection\<close>.\<close>

record api_connection =
  api_conn_id :: string
  from_agent :: string
  to_agent :: string
  from_handle :: string
  to_handle :: string
  enabled :: bool

text \<open>Interface \<^verbatim>\<open>Agent\<close> (the entity shown on the canvas).\<close>

record agent =
  ag_id :: string
  ag_x :: real
  ag_y :: real
  ag_width :: real
  ag_height :: real
  ag_label :: string
  ag_selected :: bool
  ag_model :: string
  ag_prompt :: string
  ag_status :: "agent_status option"
  ag_url :: "string option"
  ag_error :: "string option"

text \<open>
  Interface \<^verbatim>\<open>Connection\<close> (the relation). The handles are strings at run time
  (\<^verbatim>\<open>from_handle as any\<close>); the optional field \<^verbatim>\<open>direction\<close> is never written
  by the code modelled here and is left out.
\<close>

record connection =
  conn_id :: string
  fromAgent :: string
  fromHandle :: string
  toAgent :: string
  toHandle :: string

text \<open>Interface \<^verbatim>\<open>AgentOrchestrationState\<close> of the hook: the canonical state.\<close>

record orch_state =
  agents :: "agent list"
  connections :: "connection list"
  loading :: bool
  error :: "string option"
  connected :: bool

text \<open>
  The hook's initial state, the argument of \<^verbatim>\<open>useState\<close>.
\<close>

definition initialState :: orch_state where
  "initialState =
     \<lparr>agents = [], connections = [], loading = True, error = None, connected = False\<rparr>"

text \<open>
  What JavaScript throws. All three are instances of \<^verbatim>\<open>Error\<close> and carry a message;
  \<open>NonError\<close> stands for a thrown value that is not an \<^verbatim>\<open>Error\<close>.
\<close>

datatype js_error = TypeError string | ReferenceError string | JsError string | NonError

text \<open>\<^verbatim>\<open>error instanceof Error ? error.message : fallback\<close>\<close>

fun error_message :: "js_error \<Rightarrow> string \<Rightarrow> string" where
  "error_message (TypeError m) fallback = m"
| "error_message (ReferenceError m) fallback = m"
| "error_message (JsError m) fallback = m"
| "error_message NonError fallback = fallback"

section \<open>Position allocator and cache (services/api.ts)\<close>

text \<open>
  \<^verbatim>\<open>localStorage\<close> maps keys to texts. A stored text is represented by what
  \<^verbatim>\<open>JSON.parse\<close> makes of it: \<open>None\<close> when the parse throws (the empty text
  included), \<open>Some v\<close> otherwise. The list keeps the order in which
  \<^verbatim>\<open>localStorage.key(i)\<close> enumerates the keys; keys are unique.
\<close>

datatype json =
    JNull
  | JBool bool
  | JNum real
  | JStr string
  | JArr "json list"
  | JObj "(string \<times> json) list"

type_synonym storage = "(string \<times> json option) list"

record position =
  pos_x :: real
  pos_y :: real

text \<open>
  Reading a property of a parsed value: \<^verbatim>\<open>null.x\<close> throws, a property of an object
  is looked up, and the primitives and arrays have no property \<^verbatim>\<open>x\<close> or \<^verbatim>\<open>y\<close>
  (the result is \<^verbatim>\<open>undefined\<close>, here \<open>None\<close>).
\<close>

fun get_prop :: "json \<Rightarrow> string \<Rightarrow> js_error + json option" where
  "get_prop JNull k = Inl (TypeError ''Cannot read properties of null'')"
| "get_prop (JObj kvs) k = Inr (map_of kvs k)"
| "get_prop v k = Inr None"

text \<open>
  The validation shared by \<^verbatim>\<open>getStoredPosition\<close> and \<^verbatim>\<open>getAllStoredPositions\<close>:
  \<^verbatim>\<open>typeof position.x === 'number' && typeof position.y === 'number'\<close>, with the
  exception of a failed parse or property read caught by the caller.
\<close>

definition parsePosition :: "json option \<Rightarrow> position option" where
  "parsePosition stored =
     (case stored of
        None \<Rightarrow> None
      | Some v \<Rightarrow>
          (case get_prop v ''x'' of
             Inl e \<Rightarrow> None
           | Inr (Some (JNum x)) \<Rightarrow>
               (case get_prop v ''y'' of
                  Inr (Some (JNum y)) \<Rightarrow> Some \<lparr>pos_x = x, pos_y = y\<rparr>
                | _ \<Rightarrow> None)
           | Inr _ \<Rightarrow> None))"

definition position_key :: "string \<Rightarrow> string" where
  "position_key agentId = ''agent_position_'' @ agentId"

definition getStoredPosition :: "storage \<Rightarrow> string \<Rightarrow> position option" where
  "getStoredPosition ls agentId =
     (case map_of ls (position_key agentId) of
        None \<Rightarrow> None
      | Some stored \<Rightarrow> parsePosition stored)"

text \<open>\<^verbatim>\<open>localStorage.setItem\<close>: an existing key keeps its place, a new key is added.\<close>

fun setItem :: "storage \<Rightarrow> string \<Rightarrow> json option \<Rightarrow> storage" where
  "setItem [] k v = [(k, v)]"
| "setItem ((k', v') # ls) k v = (if k' = k then (k, v) # ls else (k', v') # setItem ls k v)"

text \<open>
  \<^verbatim>\<open>storeAgentPosition\<close> writes \<^verbatim>\<open>JSON.stringify({ x, y })\<close>; a failing write is
  caught and logged, which leaves the store as it was and is not modelled.
\<close>

definition storeAgentPosition :: "storage \<Rightarrow> string \<Rightarrow> real \<Rightarrow> real \<Rightarrow> storage" where
  "storeAgentPosition ls agentId x y =
     setItem ls (position_key agentId) (Some (JObj [(''x'', JNum x), (''y'', JNum y)]))"

text \<open>\<^verbatim>\<open>key.startsWith('agent_position_')\<close>\<close>

definition startsWith :: "string \<Rightarrow> string \<Rightarrow> bool" where
  "startsWith s p = (take (length p) s = p)"

fun getAllStoredPositions :: "storage \<Rightarrow> position list" where
  "getAllStoredPositions [] = []"
| "getAllStoredPositions ((key, stored) # ls) =
     (if startsWith key ''agent_position_'' then
        (case parsePosition stored of
           Some p \<Rightarrow> p # getAllStoredPositions ls
         | None \<Rightarrow> getAllStoredPositions ls)
      else getAllStoredPositions ls)"

text \<open>
  \<^verbatim>\<open>existingPositions.some(pos => Math.abs(pos.x - x) < 50 && Math.abs(pos.y - y) < 50)\<close>
\<close>

definition isOccupied :: "position list \<Rightarrow> real \<Rightarrow> real \<Rightarrow> bool" where
  "isOccupied existingPositions x y =
     list_ex (\<lambda>pos. \<bar>pos_x pos - x\<bar> < 50 \<and> \<bar>pos_y pos - y\<bar> < 50) existingPositions"

text \<open>
  The candidate cells in the order of the two nested loops: \<^verbatim>\<open>row\<close> outside,
  \<^verbatim>\<open>col\<close> inside, both from 0 to 9, with \<^verbatim>\<open>gridSize = 200\<close>.
\<close>

definition gridCells :: "position list" where
  "gridCells =
     concat (map (\<lambda>row. map (\<lambda>col. \<lparr>pos_x = real col * 200 + 100, pos_y = real row * 200 + 100\<rparr>)
                         [0..<10])
                 [0..<10])"

text \<open>The loops return the first cell that is not occupied.\<close>

definition gridScan :: "position list \<Rightarrow> position option" where
  "gridScan existingPositions =
     find (\<lambda>c. \<not> isOccupied existingPositions (pos_x c) (pos_y c)) gridCells"

text \<open>
  \<^verbatim>\<open>generateDefaultPosition\<close>. The pair \<open>rnd\<close> holds the two results of
  \<^verbatim>\<open>Math.random()\<close> that the fallback would draw.
\<close>

definition generateDefaultPosition :: "storage \<Rightarrow> real \<times> real \<Rightarrow> position" where
  "generateDefaultPosition ls rnd =
     (case gridScan (getAllStoredPositions ls) of
        Some c \<Rightarrow> c
      | None \<Rightarrow> \<lparr>pos_x = fst rnd * 400 + 50, pos_y = snd rnd * 300 + 50\<rparr>)"

text \<open>\<^verbatim>\<open>apiAgentToUIAgent\<close>; \<^verbatim>\<open>config.prompt || ''\<close> turns an absent prompt into the empty text.\<close>

definition apiAgentToUIAgent :: "storage \<Rightarrow> real \<times> real \<Rightarrow> api_agent \<Rightarrow> agent" where
  "apiAgentToUIAgent ls rnd apiAgent =
     (let position = (case getStoredPosition ls (api_id apiAgent) of
                        Some p \<Rightarrow> p
                      | None \<Rightarrow> generateDefaultPosition ls rnd)
      in \<lparr>ag_id = api_id apiAgent,
          ag_x = pos_x position,
          ag_y = pos_y position,
          ag_width = 120,
          ag_height = 80,
          ag_label = cfg_name (api_config apiAgent),
          ag_selected = False,
          ag_model = cfg_model (api_config apiAgent),
          ag_prompt = (case cfg_prompt (api_config apiAgent) of None \<Rightarrow> '''' | Some p \<Rightarrow> p),
          ag_status = Some (api_status apiAgent),
          ag_url = api_url apiAgent,
          ag_error = api_error_message apiAgent\<rparr>)"

definition apiConnectionToUIConnection :: "api_connection \<Rightarrow> connection" where
  "apiConnectionToUIConnection apiConnection =
     \<lparr>conn_id = api_conn_id apiConnection,
      fromAgent = from_agent apiConnection,
      fromHandle = from_handle apiConnection,
      toAgent = to_agent apiConnection,
      toHandle = to_handle apiConnection\<rparr>"

section \<open>Event processor (the hook's \<^verbatim>\<open>handleWebSocketMessage\<close>)\<close>

text \<open>
  An inbound message is \<^verbatim>\<open>data: any\<close>. The record lists the properties that the
  handler reads; a property that the message does not carry is \<open>None\<close>
  (\<^verbatim>\<open>undefined\<close>), and a property that it carries has the type that
  \<^verbatim>\<open>services/api.ts\<close> declares for it.
\<close>

record ws_message =
  msg_type :: "string option"
  msg_agents :: "api_agent list option"
  msg_connections :: "api_connection list option"
  msg_agent :: "api_agent option"
  msg_agent_id :: "string option"
  msg_connection :: "api_connection option"
  msg_connection_id :: "string option"
  msg_error :: "string option"
  msg_status :: "string option"

text \<open>A message with a type and no other property.\<close>

definition bare_message :: "string \<Rightarrow> ws_message" where
  "bare_message t =
     \<lparr>msg_type = Some t, msg_agents = None, msg_connections = None, msg_agent = None,
      msg_agent_id = None, msg_connection = None, msg_connection_id = None,
      msg_error = None, msg_status = None\<rparr>"

text \<open>
  \<^verbatim>\<open>Array.prototype.map\<close> with a callback that may throw: the first exception ends
  the traversal.
\<close>

fun map_throw :: "('a \<Rightarrow> js_error + 'b) \<Rightarrow> 'a list \<Rightarrow> js_error + 'b list" where
  "map_throw f [] = Inr []"
| "map_throw f (x # xs) =
     (case f x of
        Inl e \<Rightarrow> Inl e
      | Inr y \<Rightarrow> (case map_throw f xs of Inl e \<Rightarrow> Inl e | Inr ys \<Rightarrow> Inr (y # ys)))"

text \<open>
  The callback of the \<^verbatim>\<open>agent_updated\<close> case. It reads \<^verbatim>\<open>data.agent.id\<close> for
  every agent of the state, which throws when the message has no \<^verbatim>\<open>agent\<close>.
  The argument \<open>rnd\<close> is the pair of random numbers available to this call of
  \<^verbatim>\<open>apiAgentToUIAgent\<close>.
\<close>

definition updateAgentCallback ::
  "storage \<Rightarrow> ws_message \<Rightarrow> real \<times> real \<Rightarrow> agent \<Rightarrow> js_error + agent" where
  "updateAgentCallback ls data rnd agent =
     (case msg_agent data of
        None \<Rightarrow> Inl (TypeError ''Cannot read properties of undefined (reading id)'')
      | Some apiAgent \<Rightarrow>
          if ag_id agent = api_id apiAgent then
            (let updatedAgent = apiAgentToUIAgent ls rnd apiAgent
             in Inr (updatedAgent\<lparr>ag_x := ag_x agent, ag_y := ag_y agent,
                                   ag_selected := ag_selected agent\<rparr>))
          else Inr agent)"

text \<open>
  The \<^verbatim>\<open>switch (data.type)\<close> inside the inner \<^verbatim>\<open>try\<close>. The store \<open>ls\<close> is
  what \<^verbatim>\<open>localStorage\<close> holds when the message is handled, and \<open>rand i\<close> the
  random numbers for the conversion of the \<open>i\<close>-th element of a mapped list.
\<close>

definition dispatchMessage ::
  "storage \<Rightarrow> (nat \<Rightarrow> real \<times> real) \<Rightarrow> ws_message \<Rightarrow> orch_state \<Rightarrow> js_error + orch_state" where
  "dispatchMessage ls rand data currentState =
     (if msg_type data = Some ''initial_state'' then
        (let initialAgents =
               (case msg_agents data of
                  None \<Rightarrow> []
                | Some as \<Rightarrow> map (\<lambda>(i, apiAgent). apiAgentToUIAgent ls (rand i) apiAgent)
                                 (enumerate 0 as));
             initialConnections =
               (case msg_connections data of
                  None \<Rightarrow> []
                | Some cs \<Rightarrow> map apiConnectionToUIConnection cs)
         in Inr (currentState\<lparr>agents := initialAgents, connections := initialConnections,
                                loading := False, connected := True\<rparr>))
      else if msg_type data = Some ''agent_updated'' then
        (case map_throw (\<lambda>(i, agent). updateAgentCallback ls data (rand i) agent)
                        (enumerate 0 (agents currentState)) of
           Inl e \<Rightarrow> Inl e
         | Inr as \<Rightarrow> Inr (currentState\<lparr>agents := as\<rparr>))
      else if msg_type data = Some ''agent_deleted'' then
        Inr (currentState
               \<lparr>agents := filter (\<lambda>agent. Some (ag_id agent) \<noteq> msg_agent_id data)
                                 (agents currentState),
                connections := filter (\<lambda>conn. Some (fromAgent conn) \<noteq> msg_agent_id data
                                              \<and> Some (toAgent conn) \<noteq> msg_agent_id data)
                                      (connections currentState)\<rparr>)
      else if msg_type data = Some ''connection_added'' then
        (case msg_connection data of
           None \<Rightarrow> Inl (TypeError ''Cannot read properties of undefined (reading id)'')
         | Some c \<Rightarrow>
             Inr (currentState\<lparr>connections := connections currentState
                                                  @ [apiConnectionToUIConnection c]\<rparr>))
      else if msg_type data = Some ''connection_removed'' then
        Inr (currentState
               \<lparr>connections := filter (\<lambda>conn. Some (conn_id conn) \<noteq> msg_connection_id data)
                                      (connections currentState)\<rparr>)
      else if msg_type data = Some ''connection_failed'' then
        Inr (currentState\<lparr>connected := False,
                           error := Some ''Connection to orchestration layer failed''\<rparr>)
      else if msg_type data = Some ''connection_error'' then
        Inr (currentState
               \<lparr>connected := False,
                error := Some (''WebSocket error: ''
                               @ (case msg_error data of
                                    None \<Rightarrow> ''Connection failed''
                                  | Some e \<Rightarrow> if e = [] then ''Connection failed'' else e))\<rparr>)
      else if msg_type data = Some ''connection_established'' then
        Inr (currentState\<lparr>connected := True, error := None\<rparr>)
      else Inr currentState)"

text \<open>
  The function handed to \<^verbatim>\<open>setState\<close>: the inner \<^verbatim>\<open>catch\<close> returns the
  current state when the \<^verbatim>\<open>switch\<close> throws.
\<close>

definition handleWebSocketMessage ::
  "storage \<Rightarrow> (nat \<Rightarrow> real \<times> real) \<Rightarrow> ws_message \<Rightarrow> orch_state \<Rightarrow> orch_state" where
  "handleWebSocketMessage ls rand data currentState =
     (case dispatchMessage ls rand data currentState of
        Inl stateError \<Rightarrow> currentState
      | Inr newState \<Rightarrow> newState)"


section \<open>Optimistic mutation coordinator (the hook's mutating operations)\<close>

text \<open>
  What \<^verbatim>\<open>fetch\<close> does with a request: it resolves with a response whose
  \<^verbatim>\<open>ok\<close> flag is given, or it rejects with a \<^verbatim>\<open>TypeError\<close> whose message
  the browser chooses.
\<close>

datatype fetch_result = Responded bool | NetworkError string

text \<open>The calls of the service object that reach the server, with their arguments.\<close>

datatype request =
    CreateConnectionRequest string string string string bool
  | DeleteConnectionRequest string
  | DeleteAgentRequest string

text \<open>
  The service methods \<^verbatim>\<open>createConnection\<close>, \<^verbatim>\<open>deleteConnection\<close> and
  \<^verbatim>\<open>deleteAgent\<close> of \<^verbatim>\<open>services/api.ts\<close>: each throws when the response is not
  \<^verbatim>\<open>ok\<close> and lets a rejection of \<^verbatim>\<open>fetch\<close> through.
\<close>

definition api_createConnection :: "fetch_result \<Rightarrow> js_error + unit" where
  "api_createConnection response =
     (case response of
        NetworkError m \<Rightarrow> Inl (TypeError m)
      | Responded ok \<Rightarrow> if \<not> ok then Inl (JsError ''Failed to create connection'') else Inr ())"

definition api_deleteConnection :: "fetch_result \<Rightarrow> js_error + unit" where
  "api_deleteConnection response =
     (case response of
        NetworkError m \<Rightarrow> Inl (TypeError m)
      | Responded ok \<Rightarrow> if \<not> ok then Inl (JsError ''Failed to delete connection'') else Inr ())"

definition api_deleteAgent :: "fetch_result \<Rightarrow> string \<Rightarrow> js_error + unit" where
  "api_deleteAgent response agentId =
     (case response of
        NetworkError m \<Rightarrow> Inl (TypeError m)
      | Responded ok \<Rightarrow>
          if \<not> ok then Inl (JsError (''Failed to delete agent '' @ agentId)) else Inr ())"

text \<open>The predicate of the duplicate check of \<^verbatim>\<open>createConnection\<close>.\<close>

definition sameEndpoints :: "string \<Rightarrow> string \<Rightarrow> string \<Rightarrow> string \<Rightarrow> connection \<Rightarrow> bool" where
  "sameEndpoints fromAgent' toAgent' fromHandle' toHandle' conn =
     (fromAgent conn = fromAgent' \<and> toAgent conn = toAgent'
      \<and> fromHandle conn = fromHandle' \<and> toHandle conn = toHandle')"

text \<open>
  \<^verbatim>\<open>createConnection\<close> of the hook, run to completion on the state \<open>state\<close> with no
  other transition in between (the callback is rebuilt whenever the connections
  change, so the check reads the same connections as the updates). The result is the
  new state, the requests issued and what the promise settles with: \<open>Inl\<close> the
  error thrown again, \<open>Inr None\<close> for \<^verbatim>\<open>undefined\<close>. The argument
  \<open>tempConnectionId\<close> is the text built from \<^verbatim>\<open>Date.now()\<close> and
  \<^verbatim>\<open>Math.random()\<close>.
\<close>

definition createConnection ::
  "orch_state \<Rightarrow> string \<Rightarrow> fetch_result \<Rightarrow> string \<Rightarrow> string \<Rightarrow> string \<Rightarrow> string
   \<Rightarrow> orch_state \<times> request list \<times> (js_error + connection option)" where
  "createConnection state tempConnectionId response fromAgent' toAgent' fromHandle' toHandle' =
     (case find (sameEndpoints fromAgent' toAgent' fromHandle' toHandle') (connections state) of
        Some existingConnection \<Rightarrow> (state, [], Inr None)
      | None \<Rightarrow>
          (let optimisticConnection =
                 \<lparr>conn_id = tempConnectionId, fromAgent = fromAgent', fromHandle = fromHandle',
                  toAgent = toAgent', toHandle = toHandle'\<rparr>;
               optimistic = state\<lparr>connections := connections state @ [optimisticConnection]\<rparr>;
               sent = [CreateConnectionRequest fromAgent' toAgent' fromHandle' toHandle' True]
           in case api_createConnection response of
                Inr u \<Rightarrow>
                  (optimistic\<lparr>connections := filter (\<lambda>conn. conn_id conn \<noteq> tempConnectionId)
                                                     (connections optimistic)\<rparr>,
                   sent, Inr None)
              | Inl err \<Rightarrow>
                  (optimistic\<lparr>connections := filter (\<lambda>conn. conn_id conn \<noteq> tempConnectionId)
                                                     (connections optimistic),
                              error := Some (error_message err ''Failed to create connection'')\<rparr>,
                   sent, Inl err)))"

text \<open>\<^verbatim>\<open>deleteConnection\<close> of the hook, under the same reading.\<close>

definition deleteConnection ::
  "orch_state \<Rightarrow> fetch_result \<Rightarrow> string
   \<Rightarrow> orch_state \<times> request list \<times> (js_error + unit)" where
  "deleteConnection state response connectionId =
     (case find (\<lambda>conn. conn_id conn = connectionId) (connections state) of
        None \<Rightarrow> (state, [], Inr ())
      | Some connectionToDelete \<Rightarrow>
          (let optimistic = state\<lparr>connections := filter (\<lambda>conn. conn_id conn \<noteq> connectionId)
                                                         (connections state)\<rparr>;
               sent = [DeleteConnectionRequest connectionId]
           in case api_deleteConnection response of
                Inr u \<Rightarrow> (optimistic, sent, Inr ())
              | Inl err \<Rightarrow>
                  (optimistic\<lparr>connections := connections optimistic @ [connectionToDelete],
                              error := Some (error_message err ''Failed to delete connection'')\<rparr>,
                   sent, Inl err)))"

text \<open>
  The functions that the two operations hand to \<^verbatim>\<open>setState\<close> around a failing
  round trip, one by one, each applied to the state \<open>prev\<close> it finds: the optimistic
  insertion of the placeholder and the update of the \<^verbatim>\<open>catch\<close> of
  \<^verbatim>\<open>createConnection\<close>; the optimistic removal and the update of the
  \<^verbatim>\<open>catch\<close> of \<^verbatim>\<open>deleteConnection\<close>.
\<close>

definition addOptimisticConnection ::
  "string \<Rightarrow> string \<Rightarrow> string \<Rightarrow> string \<Rightarrow> string \<Rightarrow> orch_state \<Rightarrow> orch_state" where
  "addOptimisticConnection tempConnectionId fromAgent' toAgent' fromHandle' toHandle' prev =
     prev\<lparr>connections := connections prev
              @ [\<lparr>conn_id = tempConnectionId, fromAgent = fromAgent', fromHandle = fromHandle',
                  toAgent = toAgent', toHandle = toHandle'\<rparr>]\<rparr>"

definition removeFailedConnection :: "string \<Rightarrow> js_error \<Rightarrow> orch_state \<Rightarrow> orch_state" where
  "removeFailedConnection tempConnectionId err prev =
     prev\<lparr>connections := filter (\<lambda>conn. conn_id conn \<noteq> tempConnectionId) (connections prev),
          error := Some (error_message err ''Failed to create connection'')\<rparr>"

definition removeConnectionOptimistically :: "string \<Rightarrow> orch_state \<Rightarrow> orch_state" where
  "removeConnectionOptimistically connectionId prev =
     prev\<lparr>connections := filter (\<lambda>conn. conn_id conn \<noteq> connectionId) (connections prev)\<rparr>"

definition restoreConnection :: "connection \<Rightarrow> js_error \<Rightarrow> orch_state \<Rightarrow> orch_state" where
  "restoreConnection connectionToDelete err prev =
     prev\<lparr>connections := connections prev @ [connectionToDelete],
          error := Some (error_message err ''Failed to delete connection'')\<rparr>"

text \<open>
  \<^verbatim>\<open>deleteAgent\<close> of the hook. After the request it calls
  \<^verbatim>\<open>setAgentPositions(...)\<close>; the module neither declares nor imports that name, so
  the call throws a \<^verbatim>\<open>ReferenceError\<close> inside the \<^verbatim>\<open>try\<close>, and the
  \<^verbatim>\<open>catch\<close> stores its message and throws it again. The function never touches
  \<^verbatim>\<open>localStorage\<close>; the store is passed through to make that visible.
\<close>

definition setAgentPositions :: "js_error + unit" where
  "setAgentPositions = Inl (ReferenceError ''setAgentPositions is not defined'')"

definition deleteAgent ::
  "orch_state \<Rightarrow> storage \<Rightarrow> fetch_result \<Rightarrow> string
   \<Rightarrow> orch_state \<times> storage \<times> request list \<times> (js_error + unit)" where
  "deleteAgent state ls response agentId =
     (let sent = [DeleteAgentRequest agentId];
          attempt = (case api_deleteAgent response agentId of
                       Inl err \<Rightarrow> Inl err
                     | Inr u \<Rightarrow> setAgentPositions)
      in case attempt of
           Inr u \<Rightarrow> (state, ls, sent, Inr ())
         | Inl err \<Rightarrow>
             (state\<lparr>error := Some (error_message err ''Failed to delete agent'')\<rparr>,
              ls, sent, Inl err))"

section \<open>Connection manager (class \<^verbatim>\<open>AgentOrchestrationAPI\<close>)\<close>

text \<open>
  The private fields of the class. A socket, a callback and a timer are known by
  their identity, a natural number; \<open>None\<close> is \<^verbatim>\<open>null\<close>.
\<close>

record manager =
  ws :: "nat option"
  wsCallbacks :: "nat list"
  reconnectAttempts :: nat
  maxReconnectAttempts :: nat
  reconnectTimeout :: "nat option"
  isReconnecting :: bool
  connectionCleanup :: bool
  heartbeatInterval :: "nat option"

text \<open>The field initialisers of the class.\<close>

definition newManager :: manager where
  "newManager =
     \<lparr>ws = None, wsCallbacks = [], reconnectAttempts = 0, maxReconnectAttempts = 5,
      reconnectTimeout = None, isReconnecting = False, connectionCleanup = False,
      heartbeatInterval = None\<rparr>"

text \<open>
  What a method does to the browser: the calls it makes, in order. \<open>CloseSocket\<close>
  is \<^verbatim>\<open>ws.close(code, reason)\<close>, \<open>CloseSocketDefault\<close> is \<^verbatim>\<open>ws.close()\<close>
  and \<open>OpenSocket\<close> is \<^verbatim>\<open>new WebSocket(WS_URL)\<close>.
\<close>

datatype effect =
    Notify nat ws_message
  | SetTimeout nat nat
  | ClearTimeout nat
  | CloseSocket nat nat string
  | CloseSocketDefault nat
  | OpenSocket nat

text \<open>
  The timers that are pending after a sequence of effects: \<^verbatim>\<open>setTimeout\<close> with
  the handle \<open>h\<close> adds \<open>h\<close>, \<^verbatim>\<open>clearTimeout(h)\<close> removes it.
\<close>

fun pendingTimers :: "effect list \<Rightarrow> nat list \<Rightarrow> nat list" where
  "pendingTimers [] pending = pending"
| "pendingTimers (SetTimeout h delay # es) pending = pendingTimers es (pending @ [h])"
| "pendingTimers (ClearTimeout h # es) pending = pendingTimers es (removeAll h pending)"
| "pendingTimers (e # es) pending = pendingTimers es pending"

text \<open>
  \<^verbatim>\<open>this.startHeartbeat()\<close>. The class has no member of that name (its methods are
  \<^verbatim>\<open>connectWebSocket\<close>, \<^verbatim>\<open>disconnectWebSocket\<close>, \<^verbatim>\<open>removeWebSocketCallback\<close>, the
  request methods, the position methods and the three converters), so the call
  throws and nothing assigns \<^verbatim>\<open>heartbeatInterval\<close>.
\<close>

definition startHeartbeat :: "manager \<Rightarrow> js_error + manager \<times> effect list" where
  "startHeartbeat m = Inl (TypeError ''this.startHeartbeat is not a function'')"

text \<open>
  The handler \<^verbatim>\<open>ws.onopen\<close>: the new fields, the calls made, and the exception
  that leaves the handler, if any.
\<close>

definition ws_onopen :: "manager \<Rightarrow> manager \<times> effect list \<times> js_error option" where
  "ws_onopen m =
     (let m1 = m\<lparr>reconnectAttempts := 0, isReconnecting := False\<rparr>
      in case startHeartbeat m1 of
           Inl e \<Rightarrow> (m1, [], Some e)
         | Inr (m2, started) \<Rightarrow>
             (m2,
              started @ map (\<lambda>cb. Notify cb ((bare_message ''connection_established'')
                                                \<lparr>msg_status := Some ''connected''\<rparr>))
                            (wsCallbacks m2),
              None))"

text \<open>
  The handler \<^verbatim>\<open>ws.onclose\<close>; \<open>h\<close> is the handle that \<^verbatim>\<open>setTimeout\<close> would
  return.
\<close>

definition ws_onclose :: "nat \<Rightarrow> manager \<Rightarrow> manager \<times> effect list" where
  "ws_onclose h m =
     (let m1 = m\<lparr>isReconnecting := False\<rparr>
      in if connectionCleanup m1 \<or> length (wsCallbacks m1) = 0 then (m1, [])
         else if reconnectAttempts m1 < maxReconnectAttempts m1 then
           (let delay = min (3000 * 2 ^ reconnectAttempts m1) 30000
            in (m1\<lparr>reconnectTimeout := Some h\<rparr>, [SetTimeout h delay]))
         else (m1, map (\<lambda>cb. Notify cb (bare_message ''connection_failed'')) (wsCallbacks m1)))"

text \<open>The \<^verbatim>\<open>readyState\<close> of a socket, which the browser sets.\<close>

datatype ready_state = CONNECTING | OPEN | CLOSING | CLOSED

text \<open>\<^verbatim>\<open>if (!this.wsCallbacks.includes(callback)) this.wsCallbacks.push(callback)\<close>\<close>

definition addCallback :: "nat \<Rightarrow> nat list \<Rightarrow> nat list" where
  "addCallback callback cbs = (if callback \<in> set cbs then cbs else cbs @ [callback])"

text \<open>
  \<^verbatim>\<open>connectWebSocket\<close>. The argument \<open>readyState\<close> tells the state of each
  socket at the time of the call and \<open>newSocket\<close> is the identity of the socket
  that \<^verbatim>\<open>new WebSocket\<close> would create. The handlers that the method installs on
  the new socket are \<open>ws_onopen\<close> and \<open>ws_onclose\<close> above; they read and write
  the fields of the manager, whichever socket they were installed on.
\<close>

definition connectWebSocket ::
  "(nat \<Rightarrow> ready_state) \<Rightarrow> nat \<Rightarrow> manager \<Rightarrow> nat \<Rightarrow> manager \<times> effect list" where
  "connectWebSocket readyState newSocket m callback =
     (if (case ws m of None \<Rightarrow> False | Some sock \<Rightarrow> readyState sock = OPEN) then
        (m\<lparr>wsCallbacks := addCallback callback (wsCallbacks m)\<rparr>, [])
      else if isReconnecting m then
        (m\<lparr>wsCallbacks := addCallback callback (wsCallbacks m)\<rparr>, [])
      else
        (let (m1, closed) =
               (case ws m of
                  None \<Rightarrow> (m, [])
                | Some sock \<Rightarrow> (m\<lparr>ws := None\<rparr>, [CloseSocketDefault sock]));
             m2 = m1\<lparr>isReconnecting := True\<rparr>;
             m3 = m2\<lparr>ws := Some newSocket\<rparr>
         in (m3\<lparr>wsCallbacks := addCallback callback (wsCallbacks m3)\<rparr>,
             closed @ [OpenSocket newSocket])))"

text \<open>
  The function that \<^verbatim>\<open>ws.onclose\<close> hands to \<^verbatim>\<open>setTimeout\<close>, when the timer
  fires: \<^verbatim>\<open>this.reconnectAttempts++; this.connectWebSocket(callback)\<close>, with the
  callback of the call that installed the handler.
\<close>

definition reconnectTimerFired ::
  "(nat \<Rightarrow> ready_state) \<Rightarrow> nat \<Rightarrow> manager \<Rightarrow> nat \<Rightarrow> manager \<times> effect list" where
  "reconnectTimerFired readyState newSocket m callback =
     connectWebSocket readyState newSocket
       (m\<lparr>reconnectAttempts := reconnectAttempts m + 1\<rparr>) callback"

text \<open>
  \<^verbatim>\<open>disconnectWebSocket\<close>. The test \<^verbatim>\<open>if (this.reconnectTimeout)\<close> is false for
  \<^verbatim>\<open>null\<close> and for the number 0.
\<close>

definition disconnectWebSocket :: "manager \<Rightarrow> manager \<times> effect list" where
  "disconnectWebSocket m =
     (let m1 = m\<lparr>connectionCleanup := True\<rparr>;
          (m2, cleared) =
             (case reconnectTimeout m1 of
                None \<Rightarrow> (m1, [])
              | Some t \<Rightarrow> if t = 0 then (m1, [])
                          else (m1\<lparr>reconnectTimeout := None\<rparr>, [ClearTimeout t]));
          (m3, closed) =
             (case ws m2 of
                None \<Rightarrow> (m2, [])
              | Some sock \<Rightarrow> (m2\<lparr>ws := None\<rparr>, [CloseSocket sock 1000 ''Deliberate disconnect'']))
      in (m3\<lparr>wsCallbacks := [], reconnectAttempts := 0, isReconnecting := False,
              connectionCleanup := False\<rparr>,
          cleared @ closed))"

definition removeWebSocketCallback :: "manager \<Rightarrow> nat \<Rightarrow> manager \<times> effect list" where
  "removeWebSocketCallback m callback =
     (let m1 = m\<lparr>wsCallbacks := filter (\<lambda>cb. cb \<noteq> callback) (wsCallbacks m)\<rparr>
      in if length (wsCallbacks m1) = 0 then disconnectWebSocket m1 else (m1, []))"

section \<open>Example inputs\<close>

text \<open>Concrete values at which the theorems below are evaluated.\<close>

definition ex_agent1 :: api_agent where
  "ex_agent1 =
     \<lparr>api_id = ''a1'',
      api_config = \<lparr>cfg_id = ''a1'', cfg_name = ''Alpha'', cfg_type = ''basic'', cfg_port = 8001,
                    cfg_model = ''gpt-4'', cfg_prompt = None, cfg_openai_api_key = ''k''\<rparr>,
      api_status = Running, api_pid = None, api_url = None, api_error_message = None,
      api_last_health_check = None\<rparr>"

definition ex_agent2 :: api_agent where
  "ex_agent2 = ex_agent1\<lparr>api_id := ''a2''\<rparr>"

text \<open>The first agent as the server reports it after a failure.\<close>

definition ex_agent1_failed :: api_agent where
  "ex_agent1_failed =
     ex_agent1\<lparr>api_config := (api_config ex_agent1)\<lparr>cfg_model := ''gpt-3.5'',
                                                    cfg_prompt := Some ''Be brief''\<rparr>,
               api_status := Errored, api_url := Some ''http://localhost:8001'',
               api_error_message := Some ''crashed''\<rparr>"

definition ex_rand :: "nat \<Rightarrow> real \<times> real" where
  "ex_rand i = (0, 0)"

definition ex_conn :: connection where
  "ex_conn = \<lparr>conn_id = ''r1'', fromAgent = ''a1'', fromHandle = ''right'',
              toAgent = ''a2'', toHandle = ''left''\<rparr>"

definition ex_api_conn :: api_connection where
  "ex_api_conn = \<lparr>api_conn_id = ''r2'', from_agent = ''a1'', to_agent = ''a2'',
                  from_handle = ''right'', to_handle = ''left'', enabled = True\<rparr>"

text \<open>
  A state with two agents, the first moved to (40, 60) and selected, and one relation
  from the first to the second.
\<close>

definition ex_ui_agent1 :: agent where
  "ex_ui_agent1 =
     \<lparr>ag_id = ''a1'', ag_x = 40, ag_y = 60, ag_width = 120, ag_height = 80,
      ag_label = ''Alpha'', ag_selected = True, ag_model = ''gpt-4'', ag_prompt = [],
      ag_status = Some Running, ag_url = None, ag_error = None\<rparr>"

definition ex_ui_agent2 :: agent where
  "ex_ui_agent2 =
     \<lparr>ag_id = ''a2'', ag_x = 100, ag_y = 100, ag_width = 120, ag_height = 80,
      ag_label = ''Alpha'', ag_selected = False, ag_model = ''gpt-4'', ag_prompt = [],
      ag_status = Some Running, ag_url = None, ag_error = None\<rparr>"

definition ex_state :: orch_state where
  "ex_state =
     \<lparr>agents = [ex_ui_agent1, ex_ui_agent2], connections = [ex_conn], loading = False,
      error = None, connected = True\<rparr>"

definition ex_msg_deleted :: ws_message where
  "ex_msg_deleted = (bare_message ''agent_deleted'')\<lparr>msg_agent_id := Some ''a1''\<rparr>"

definition ex_msg_updated :: ws_message where
  "ex_msg_updated = (bare_message ''agent_updated'')\<lparr>msg_agent := Some ex_agent1_failed\<rparr>"

definition ex_msg_added :: ws_message where
  "ex_msg_added = (bare_message ''connection_added'')\<lparr>msg_connection := Some ex_api_conn\<rparr>"

text \<open>A snapshot of the two agents, with no relation.\<close>

definition ex_msg_initial :: ws_message where
  "ex_msg_initial =
     (bare_message ''initial_state'')\<lparr>msg_agents := Some [ex_agent1, ex_agent2],
                                         msg_connections := Some []\<rparr>"

text \<open>A store that holds the position (100, 100) for the first agent.\<close>

definition ex_store :: storage where
  "ex_store = storeAgentPosition [] ''a1'' 100 100"

text \<open>
  A manager with an open socket, one observer, two failed attempts behind it and a
  reconnect timer.
\<close>

definition ex_manager :: manager where
  "ex_manager = newManager\<lparr>ws := Some 1, wsCallbacks := [7], reconnectAttempts := 2,
                            reconnectTimeout := Some 3, isReconnecting := True\<rparr>"

text \<open>A second relation, from the second agent back to the first.\<close>

definition ex_conn2 :: connection where
  "ex_conn2 = \<lparr>conn_id = ''r2'', fromAgent = ''a2'', fromHandle = ''right'',
               toAgent = ''a1'', toHandle = ''left''\<rparr>"

text \<open>
  The managers of a run in which the observer 7 subscribes, unsubscribes and
  subscribes again: after the first subscription (socket 1), after the second
  (socket 2), after the close event of socket 1 and after the close event of
  socket 2. No socket has opened.
\<close>

definition ex_ready :: "nat \<Rightarrow> ready_state" where
  "ex_ready sock = CONNECTING"

definition ex_subscribed :: manager where
  "ex_subscribed = newManager\<lparr>ws := Some 1, wsCallbacks := [7], isReconnecting := True\<rparr>"

definition ex_resubscribed :: manager where
  "ex_resubscribed = newManager\<lparr>ws := Some 2, wsCallbacks := [7], isReconnecting := True\<rparr>"

definition ex_after_close1 :: manager where
  "ex_after_close1 = newManager\<lparr>ws := Some 2, wsCallbacks := [7], reconnectTimeout := Some 5\<rparr>"

definition ex_after_close2 :: manager where
  "ex_after_close2 = newManager\<lparr>ws := Some 2, wsCallbacks := [7], reconnectTimeout := Some 6\<rparr>"

section \<open>Properties of the event processor\<close>

lemma map_throw_Inr: "map_throw (\<lambda>x. Inr (g x)) xs = Inr (map g xs)"
  by (induction xs) simp_all

lemma agent_deleted_eq:
  assumes "msg_type data = Some ''agent_deleted''" and "msg_agent_id data = Some X"
  shows "handleWebSocketMessage ls rand data s =
           s\<lparr>agents := filter (\<lambda>a. ag_id a \<noteq> X) (agents s),
             connections := filter (\<lambda>c. fromAgent c \<noteq> X \<and> toAgent c \<noteq> X) (connections s)\<rparr>"
  using assms by (simp add: handleWebSocketMessage_def dispatchMessage_def)

lemma agent_updated_eq:
  assumes "msg_type data = Some ''agent_updated''" and "msg_agent data = Some a"
  shows "handleWebSocketMessage ls rand data s =
           s\<lparr>agents := map (\<lambda>(i, agent).
                 if ag_id agent = api_id a
                 then (apiAgentToUIAgent ls (rand i) a)
                        \<lparr>ag_x := ag_x agent, ag_y := ag_y agent, ag_selected := ag_selected agent\<rparr>
                 else agent) (enumerate 0 (agents s))\<rparr>"
proof -
  have cb: "(\<lambda>(i, agent). updateAgentCallback ls data (rand i) agent) =
        (\<lambda>p. Inr ((\<lambda>(i, agent). if ag_id agent = api_id a
                 then (apiAgentToUIAgent ls (rand i) a)
                        \<lparr>ag_x := ag_x agent, ag_y := ag_y agent, ag_selected := ag_selected agent\<rparr>
                 else agent) p))"
    using assms(2) by (auto simp: updateAgentCallback_def fun_eq_iff Let_def)
  show ?thesis
    using assms(1)
    by (simp add: handleWebSocketMessage_def dispatchMessage_def cb map_throw_Inr)
qed

lemma connection_added_eq:
  assumes "msg_type data = Some ''connection_added''" and "msg_connection data = Some c"
  shows "handleWebSocketMessage ls rand data s =
           s\<lparr>connections := connections s @ [apiConnectionToUIConnection c]\<rparr>"
  using assms by (simp add: handleWebSocketMessage_def dispatchMessage_def)

lemmas ex_defs =
  ex_agent1_def ex_agent2_def ex_agent1_failed_def ex_rand_def ex_conn_def ex_api_conn_def
  ex_ui_agent1_def ex_ui_agent2_def ex_state_def ex_msg_deleted_def ex_msg_updated_def
  ex_msg_added_def bare_message_def

text \<open>
  C6. An \<^verbatim>\<open>agent_deleted\<close> event with \<^verbatim>\<open>agent_id\<close> \<open>X\<close> removes the agents whose id
  is \<open>X\<close> and exactly the relations whose source or target is \<open>X\<close>; every other agent
  and relation stays, in its order, and the flags and the error are unchanged.
\<close>

theorem agent_deleted_cascade:
  assumes "msg_type data = Some ''agent_deleted''" and "msg_agent_id data = Some X"
  shows "(let s' = handleWebSocketMessage ls rand data s in
           (\<forall>a. a \<in> set (agents s') \<longleftrightarrow> a \<in> set (agents s) \<and> ag_id a \<noteq> X)
         \<and> (\<forall>c. c \<in> set (connections s') \<longleftrightarrow>
                  c \<in> set (connections s) \<and> \<not> (fromAgent c = X \<or> toAgent c = X))
         \<and> agents s' = filter (\<lambda>a. ag_id a \<noteq> X) (agents s)
         \<and> connections s' = filter (\<lambda>c. \<not> (fromAgent c = X \<or> toAgent c = X)) (connections s)
         \<and> loading s' = loading s \<and> error s' = error s \<and> connected s' = connected s)"
  unfolding agent_deleted_eq [OF assms] by (auto simp: Let_def)

text \<open>
  The theorem at the example state: deleting \<open>a1\<close> leaves the second agent and no
  relation.
\<close>

theorem agent_deleted_cascade_witness:
  "msg_type ex_msg_deleted = Some ''agent_deleted'' \<and> msg_agent_id ex_msg_deleted = Some ''a1''
   \<and> agents (handleWebSocketMessage [] ex_rand ex_msg_deleted ex_state) = [ex_ui_agent2]
   \<and> connections (handleWebSocketMessage [] ex_rand ex_msg_deleted ex_state) = []"
proof -
  have h1: "msg_type ex_msg_deleted = Some ''agent_deleted''"
    by (simp add: ex_msg_deleted_def bare_message_def)
  have h2: "msg_agent_id ex_msg_deleted = Some ''a1''"
    by (simp add: ex_msg_deleted_def bare_message_def)
  have a: "filter (\<lambda>a. ag_id a \<noteq> ''a1'') (agents ex_state) = [ex_ui_agent2]"
    by (simp add: ex_defs)
  have c: "filter (\<lambda>c. \<not> (fromAgent c = ''a1'' \<or> toAgent c = ''a1'')) (connections ex_state) = []"
    by (simp add: ex_defs)
  show ?thesis
    using agent_deleted_cascade [OF h1 h2, of "[]" ex_rand ex_state] h1 h2 a c
    by (simp add: Let_def)
qed

text \<open>
  C7. An \<^verbatim>\<open>agent_updated\<close> event that carries the agent \<open>a\<close> gives every agent of
  the state whose id is that of \<open>a\<close> the model, prompt, status, url and error of \<open>a\<close>
  and keeps its position and its selection flag; every other agent, the relations,
  the flags and the error are unchanged.
\<close>

theorem agent_updated_preserves_ui_fields:
  assumes "msg_type data = Some ''agent_updated''" and "msg_agent data = Some a"
  shows "(let s' = handleWebSocketMessage ls rand data s in
           length (agents s') = length (agents s)
         \<and> (\<forall>i < length (agents s).
               (ag_id (agents s ! i) = api_id a \<longrightarrow>
                    ag_id (agents s' ! i) = api_id a
                  \<and> ag_model (agents s' ! i) = cfg_model (api_config a)
                  \<and> ag_prompt (agents s' ! i)
                      = (case cfg_prompt (api_config a) of None \<Rightarrow> [] | Some p \<Rightarrow> p)
                  \<and> ag_status (agents s' ! i) = Some (api_status a)
                  \<and> ag_url (agents s' ! i) = api_url a
                  \<and> ag_error (agents s' ! i) = api_error_message a
                  \<and> ag_x (agents s' ! i) = ag_x (agents s ! i)
                  \<and> ag_y (agents s' ! i) = ag_y (agents s ! i)
                  \<and> ag_selected (agents s' ! i) = ag_selected (agents s ! i))
             \<and> (ag_id (agents s ! i) \<noteq> api_id a \<longrightarrow> agents s' ! i = agents s ! i))
         \<and> connections s' = connections s \<and> loading s' = loading s
         \<and> error s' = error s \<and> connected s' = connected s)"
  unfolding agent_updated_eq [OF assms]
  by (simp add: Let_def nth_enumerate_eq apiAgentToUIAgent_def)

text \<open>
  The theorem at the example state: the first agent takes the reported status and
  error and stays at (40, 60), selected; the second agent is as before.
\<close>

theorem agent_updated_preserves_ui_fields_witness:
  "msg_type ex_msg_updated = Some ''agent_updated''
   \<and> msg_agent ex_msg_updated = Some ex_agent1_failed
   \<and> (0::nat) < length (agents ex_state) \<and> (1::nat) < length (agents ex_state)
   \<and> ag_id (agents ex_state ! 0) = api_id ex_agent1_failed
   \<and> ag_id (agents ex_state ! 1) \<noteq> api_id ex_agent1_failed
   \<and> ag_status (agents (handleWebSocketMessage [] ex_rand ex_msg_updated ex_state) ! 0)
       = Some Errored
   \<and> ag_error (agents (handleWebSocketMessage [] ex_rand ex_msg_updated ex_state) ! 0)
       = Some ''crashed''
   \<and> ag_x (agents (handleWebSocketMessage [] ex_rand ex_msg_updated ex_state) ! 0) = 40
   \<and> ag_y (agents (handleWebSocketMessage [] ex_rand ex_msg_updated ex_state) ! 0) = 60
   \<and> ag_selected (agents (handleWebSocketMessage [] ex_rand ex_msg_updated ex_state) ! 0)
   \<and> agents (handleWebSocketMessage [] ex_rand ex_msg_updated ex_state) ! 1 = ex_ui_agent2"
proof -
  have h1: "msg_type ex_msg_updated = Some ''agent_updated''"
    by (simp add: ex_msg_updated_def bare_message_def)
  have h2: "msg_agent ex_msg_updated = Some ex_agent1_failed"
    by (simp add: ex_msg_updated_def bare_message_def)
  have l: "length (agents ex_state) = 2"
    by (simp add: ex_state_def)
  have i0: "agents ex_state ! 0 = ex_ui_agent1" and i1: "agents ex_state ! 1 = ex_ui_agent2"
    by (simp_all add: ex_state_def)
  have id0: "ag_id ex_ui_agent1 = api_id ex_agent1_failed"
    by (simp add: ex_ui_agent1_def ex_agent1_failed_def ex_agent1_def)
  have id1: "ag_id ex_ui_agent2 \<noteq> api_id ex_agent1_failed"
    by (simp add: ex_ui_agent2_def ex_agent1_failed_def ex_agent1_def)
  have v: "api_status ex_agent1_failed = Errored"
      "api_error_message ex_agent1_failed = Some ''crashed''"
      "ag_x ex_ui_agent1 = 40" "ag_y ex_ui_agent1 = 60" "ag_selected ex_ui_agent1"
    by (simp_all add: ex_agent1_failed_def ex_ui_agent1_def)
  from agent_updated_preserves_ui_fields [OF h1 h2, of "[]" ex_rand ex_state]
  have "\<forall>i<2. (ag_id (agents ex_state ! i) = api_id ex_agent1_failed \<longrightarrow>
             ag_status (agents (handleWebSocketMessage [] ex_rand ex_msg_updated ex_state) ! i)
               = Some (api_status ex_agent1_failed)
           \<and> ag_error (agents (handleWebSocketMessage [] ex_rand ex_msg_updated ex_state) ! i)
               = api_error_message ex_agent1_failed
           \<and> ag_x (agents (handleWebSocketMessage [] ex_rand ex_msg_updated ex_state) ! i)
               = ag_x (agents ex_state ! i)
           \<and> ag_y (agents (handleWebSocketMessage [] ex_rand ex_msg_updated ex_state) ! i)
               = ag_y (agents ex_state ! i)
           \<and> ag_selected (agents (handleWebSocketMessage [] ex_rand ex_msg_updated ex_state) ! i)
               = ag_selected (agents ex_state ! i))
         \<and> (ag_id (agents ex_state ! i) \<noteq> api_id ex_agent1_failed \<longrightarrow>
             agents (handleWebSocketMessage [] ex_rand ex_msg_updated ex_state) ! i
               = agents ex_state ! i)"
    by (simp add: Let_def l)
  then have
    "ag_status (agents (handleWebSocketMessage [] ex_rand ex_msg_updated ex_state) ! 0)
       = Some (api_status ex_agent1_failed)
     \<and> ag_error (agents (handleWebSocketMessage [] ex_rand ex_msg_updated ex_state) ! 0)
       = api_error_message ex_agent1_failed
     \<and> ag_x (agents (handleWebSocketMessage [] ex_rand ex_msg_updated ex_state) ! 0)
       = ag_x ex_ui_agent1
     \<and> ag_y (agents (handleWebSocketMessage [] ex_rand ex_msg_updated ex_state) ! 0)
       = ag_y ex_ui_agent1
     \<and> ag_selected (agents (handleWebSocketMessage [] ex_rand ex_msg_updated ex_state) ! 0)
       = ag_selected ex_ui_agent1"
    and "agents (handleWebSocketMessage [] ex_rand ex_msg_updated ex_state) ! 1 = ex_ui_agent2"
    using id0 id1 i0 i1 by (metis zero_less_numeral, metis one_less_numeral_iff semiring_norm(76))
  then show ?thesis
    using h1 h2 l i0 i1 id0 id1 v by simp
qed

text \<open>
  C2, as the code has it. A \<^verbatim>\<open>connection_added\<close> event that carries a connection
  appends the converted relation at the end of the relation list, whether or not a
  relation with the same source, source handle, target and target handle is already
  there; nothing else in the state changes.
\<close>

theorem connection_added_appends:
  assumes "msg_type data = Some ''connection_added''" and "msg_connection data = Some c"
  shows "handleWebSocketMessage ls rand data s =
           s\<lparr>connections := connections s @ [apiConnectionToUIConnection c]\<rparr>"
  using assms by (rule connection_added_eq)

theorem connection_added_appends_witness:
  "msg_type ex_msg_added = Some ''connection_added''
   \<and> msg_connection ex_msg_added = Some ex_api_conn
   \<and> connections (handleWebSocketMessage [] ex_rand ex_msg_added ex_state)
       = [ex_conn, ex_conn\<lparr>conn_id := ''r2''\<rparr>]"
proof -
  have h1: "msg_type ex_msg_added = Some ''connection_added''"
    by (simp add: ex_msg_added_def bare_message_def)
  have h2: "msg_connection ex_msg_added = Some ex_api_conn"
    by (simp add: ex_msg_added_def bare_message_def)
  show ?thesis
    using connection_added_appends [OF h1 h2, of "[]" ex_rand ex_state] h1 h2
    by (simp add: ex_state_def ex_conn_def ex_api_conn_def apiConnectionToUIConnection_def)
qed

text \<open>
  C2 as stated fails: the example state holds a relation from \<open>a1\<close> (right) to \<open>a2\<close>
  (left), the event adds a connection with the same four fields, and the relation
  list is not returned unchanged.
\<close>

theorem connection_added_duplicate_counterexample:
  "sameEndpoints (from_agent ex_api_conn) (to_agent ex_api_conn) (from_handle ex_api_conn)
       (to_handle ex_api_conn) ex_conn
   \<and> ex_conn \<in> set (connections ex_state)
   \<and> connections (handleWebSocketMessage [] ex_rand ex_msg_added ex_state)
       \<noteq> connections ex_state"
  by (simp add: sameEndpoints_def ex_api_conn_def ex_conn_def ex_state_def ex_msg_added_def
      handleWebSocketMessage_def dispatchMessage_def bare_message_def)




section \<open>Properties of the optimistic mutation coordinator\<close>

lemma filter_fresh_id:
  "tid \<notin> conn_id ` set cs \<Longrightarrow> filter (\<lambda>c. conn_id c \<noteq> tid) cs = cs"
  by (induction cs) auto

lemma find_distinct_mset:
  "distinct (map conn_id cs) \<Longrightarrow> find (\<lambda>x. conn_id x = cid) cs = Some c
   \<Longrightarrow> mset (filter (\<lambda>x. conn_id x \<noteq> cid) cs @ [c]) = mset cs"
proof (induction cs)
  case Nil
  then show ?case by simp
next
  case (Cons x xs)
  show ?case
  proof (cases "conn_id x = cid")
    case True
    with Cons.prems have "c = x" and "cid \<notin> conn_id ` set xs" by auto
    then show ?thesis using True by (simp add: filter_fresh_id)
  next
    case False
    with Cons show ?thesis by simp
  qed
qed

lemma find_None_filter: "find P xs = None \<Longrightarrow> filter P xs = []"
  by (induction xs) (auto split: if_splits)

text \<open>
  C4, as the code has it. When a relation with the four given fields is in the state,
  \<^verbatim>\<open>createConnection\<close> issues no request, leaves the state as it is and returns
  \<^verbatim>\<open>undefined\<close>. When no such relation is in the state, the first call succeeds
  and the stream's \<^verbatim>\<open>connection_added\<close> event for it is applied before the second
  call, the second call is such a no-op and the state holds exactly one relation with
  the four fields.
\<close>

theorem createConnection_duplicate_noop:
  "(find (sameEndpoints fa ta fh th) (connections s) \<noteq> None \<longrightarrow>
      createConnection s tempId response fa ta fh th = (s, [], Inr None))
   \<and> (find (sameEndpoints fa ta fh th) (connections s) = None
        \<and> sameEndpoints fa ta fh th (apiConnectionToUIConnection c)
        \<and> msg_type data = Some ''connection_added'' \<and> msg_connection data = Some c \<longrightarrow>
      (let s1 = fst (createConnection s tempId (Responded True) fa ta fh th);
           s2 = handleWebSocketMessage ls rand data s1
       in createConnection s2 tempId' response fa ta fh th = (s2, [], Inr None)
          \<and> length (filter (sameEndpoints fa ta fh th) (connections s2)) = 1))"
proof (intro conjI impI)
  assume "find (sameEndpoints fa ta fh th) (connections s) \<noteq> None"
  then show "createConnection s tempId response fa ta fh th = (s, [], Inr None)"
    by (auto simp: createConnection_def)
next
  assume a: "find (sameEndpoints fa ta fh th) (connections s) = None
        \<and> sameEndpoints fa ta fh th (apiConnectionToUIConnection c)
        \<and> msg_type data = Some ''connection_added'' \<and> msg_connection data = Some c"
  define s1 where "s1 = fst (createConnection s tempId (Responded True) fa ta fh th)"
  define s2 where "s2 = handleWebSocketMessage ls rand data s1"
  have none: "filter (sameEndpoints fa ta fh th) (connections s) = []"
    using a find_None_filter by blast
  have c1: "connections s1 = filter (\<lambda>conn. conn_id conn \<noteq> tempId) (connections s)
      @ filter (\<lambda>conn. conn_id conn \<noteq> tempId)
          [\<lparr>conn_id = tempId, fromAgent = fa, fromHandle = fh, toAgent = ta, toHandle = th\<rparr>]"
    using a by (simp add: s1_def createConnection_def api_createConnection_def Let_def)
  have f1: "filter (sameEndpoints fa ta fh th) (connections s1) = []"
    unfolding c1 using none
    by (simp add: filter_empty_conv)
  have c2: "connections s2 = connections s1 @ [apiConnectionToUIConnection c]"
    using a by (simp add: s2_def connection_added_eq)
  have f2: "filter (sameEndpoints fa ta fh th) (connections s2) = [apiConnectionToUIConnection c]"
    using a by (simp add: c2 f1)
  have "find (sameEndpoints fa ta fh th) (connections s2) \<noteq> None"
    using f2 find_None_filter [of "sameEndpoints fa ta fh th" "connections s2"] by auto
  then have "createConnection s2 tempId' response fa ta fh th = (s2, [], Inr None)"
    by (auto simp: createConnection_def)
  then show "let s1 = fst (createConnection s tempId (Responded True) fa ta fh th);
           s2 = handleWebSocketMessage ls rand data s1
       in createConnection s2 tempId' response fa ta fh th = (s2, [], Inr None)
          \<and> length (filter (sameEndpoints fa ta fh th) (connections s2)) = 1"
    using f2 by (simp add: Let_def s1_def s2_def)
qed

text \<open>
  The theorem at the example state, which holds the relation, and at the initial state
  followed by the stream's event.
\<close>

theorem createConnection_duplicate_noop_witness:
  "find (sameEndpoints ''a1'' ''a2'' ''right'' ''left'') (connections ex_state) \<noteq> None
   \<and> createConnection ex_state ''temp-1'' (Responded True) ''a1'' ''a2'' ''right'' ''left''
       = (ex_state, [], Inr None)
   \<and> find (sameEndpoints ''a1'' ''a2'' ''right'' ''left'') (connections initialState) = None
   \<and> sameEndpoints ''a1'' ''a2'' ''right'' ''left'' (apiConnectionToUIConnection ex_api_conn)
   \<and> msg_type ex_msg_added = Some ''connection_added''
   \<and> msg_connection ex_msg_added = Some ex_api_conn
   \<and> length (filter (sameEndpoints ''a1'' ''a2'' ''right'' ''left'')
        (connections (handleWebSocketMessage [] ex_rand ex_msg_added
           (fst (createConnection initialState ''temp-1'' (Responded True)
                   ''a1'' ''a2'' ''right'' ''left''))))) = 1"
proof -
  have h1: "find (sameEndpoints ''a1'' ''a2'' ''right'' ''left'') (connections ex_state) \<noteq> None"
    by (simp add: ex_state_def ex_conn_def sameEndpoints_def)
  have h2: "find (sameEndpoints ''a1'' ''a2'' ''right'' ''left'') (connections initialState) = None
        \<and> sameEndpoints ''a1'' ''a2'' ''right'' ''left'' (apiConnectionToUIConnection ex_api_conn)
        \<and> msg_type ex_msg_added = Some ''connection_added''
        \<and> msg_connection ex_msg_added = Some ex_api_conn"
    by (simp add: initialState_def sameEndpoints_def apiConnectionToUIConnection_def
        ex_api_conn_def ex_msg_added_def bare_message_def)
  have p1: "createConnection ex_state ''temp-1'' (Responded True) ''a1'' ''a2'' ''right'' ''left''
       = (ex_state, [], Inr None)"
    using createConnection_duplicate_noop
            [where fa = "''a1''" and ta = "''a2''" and fh = "''right''" and th = "''left''"
               and s = ex_state and tempId = "''temp-1''" and response = "Responded True",
             THEN conjunct1] h1
    by (rule mp)
  have p2: "let s1 = fst (createConnection initialState ''temp-1'' (Responded True)
                            ''a1'' ''a2'' ''right'' ''left'');
                s2 = handleWebSocketMessage [] ex_rand ex_msg_added s1
            in createConnection s2 ''temp-2'' (Responded True) ''a1'' ''a2'' ''right'' ''left''
                 = (s2, [], Inr None)
               \<and> length (filter (sameEndpoints ''a1'' ''a2'' ''right'' ''left'')
                                 (connections s2)) = 1"
    using createConnection_duplicate_noop
            [where fa = "''a1''" and ta = "''a2''" and fh = "''right''" and th = "''left''"
               and s = initialState and c = ex_api_conn and data = ex_msg_added
               and tempId = "''temp-1''" and ls = "[]" and rand = ex_rand
               and tempId' = "''temp-2''" and response = "Responded True",
             THEN conjunct2] h2
    by (rule mp)
  from p2 have p3: "length (filter (sameEndpoints ''a1'' ''a2'' ''right'' ''left'')
        (connections (handleWebSocketMessage [] ex_rand ex_msg_added
           (fst (createConnection initialState ''temp-1'' (Responded True)
                   ''a1'' ''a2'' ''right'' ''left''))))) = 1"
    unfolding Let_def by (rule conjunct2)
  from h1 p1 h2 p3 show ?thesis
    by (simp only: simp_thms)
qed

text \<open>
  C4 as stated fails twice. With the relation in the state, the call does not return
  the existing record. And two calls in a row on the initial state, each answered with
  success and with no stream event in between, leave no relation with the four fields,
  not one: each call removes its own placeholder.
\<close>

theorem createConnection_counterexample:
  "find (sameEndpoints ''a1'' ''a2'' ''right'' ''left'') (connections ex_state) = Some ex_conn
   \<and> snd (snd (createConnection ex_state ''temp-1'' (Responded True)
                  ''a1'' ''a2'' ''right'' ''left'')) \<noteq> Inr (Some ex_conn)
   \<and> length (filter (sameEndpoints ''a1'' ''a2'' ''right'' ''left'')
        (connections (fst (createConnection
           (fst (createConnection initialState ''temp-1'' (Responded True)
                   ''a1'' ''a2'' ''right'' ''left''))
           ''temp-2'' (Responded True) ''a1'' ''a2'' ''right'' ''left'')))) \<noteq> 1"
  by (simp add: ex_state_def ex_conn_def sameEndpoints_def createConnection_def
      api_createConnection_def initialState_def Let_def)

lemma find_SomeD: "find P xs = Some x \<Longrightarrow> P x \<and> x \<in> set xs"
  by (induction xs) (auto split: if_splits)

lemma createConnection_failed:
  assumes "api_createConnection response = Inl e"
    and "find (sameEndpoints fa ta fh th) (connections s) = None"
  shows "createConnection s tempId response fa ta fh th
           = (removeFailedConnection tempId e (addOptimisticConnection tempId fa ta fh th s),
              [CreateConnectionRequest fa ta fh th True], Inl e)"
  using assms
  by (simp add: createConnection_def removeFailedConnection_def addOptimisticConnection_def
      Let_def)

lemma deleteConnection_failed:
  assumes "api_deleteConnection response = Inl e"
    and "find (\<lambda>x. conn_id x = cid) (connections s) = Some c"
  shows "deleteConnection s response cid
           = (restoreConnection c e (removeConnectionOptimistically cid s),
              [DeleteConnectionRequest cid], Inl e)"
  using assms
  by (simp add: deleteConnection_def restoreConnection_def removeConnectionOptimistically_def
      Let_def)

lemma api_createConnection_error:
  assumes "api_createConnection response = Inl e"
  shows "(\<forall>ok. response = Responded ok \<longrightarrow>
            error_message e ''Failed to create connection'' = ''Failed to create connection'')
       \<and> (\<forall>m. response = NetworkError m \<longrightarrow>
            error_message e ''Failed to create connection'' = m)"
  using assms by (cases response) (auto simp: api_createConnection_def split: if_splits)

lemma api_deleteConnection_error:
  assumes "api_deleteConnection response = Inl e"
  shows "(\<forall>ok. response = Responded ok \<longrightarrow>
            error_message e ''Failed to delete connection'' = ''Failed to delete connection'')
       \<and> (\<forall>m. response = NetworkError m \<longrightarrow>
            error_message e ''Failed to delete connection'' = m)"
  using assms by (cases response) (auto simp: api_deleteConnection_def split: if_splits)

text \<open>
  C5, as the code has it. Let the round trip of a creation fail with the error \<open>e\<close>,
  the duplicate check having found nothing. The optimistic state is the state with
  the placeholder at the end of the relation list; the request is sent; the rollback
  removes every relation that carries the temporary id, so the relation list is the
  one before the optimistic change exactly when no relation carried that id, which
  holds in particular when the id is new; nothing but the relation list and the error
  field differs from the state before, and \<open>e\<close> is thrown again. Let the round trip
  of the deletion of a relation that the state holds fail with \<open>e'\<close>. The optimistic
  state lacks every relation with the given id; the request is sent; the rollback puts
  the captured record at the end of that list, which is the list before when the
  record was the last one and the only one with its id, and holds the same relations
  as before when the ids are distinct. The error field holds the message of the
  error: the fixed text when the server answered, the text of the rejection
  otherwise.
\<close>

theorem rollback_after_failed_round_trip:
  "(api_createConnection response = Inl e
      \<and> find (sameEndpoints fa ta fh th) (connections s) = None \<longrightarrow>
    (let optimistic = addOptimisticConnection tempId fa ta fh th s;
         rolled = removeFailedConnection tempId e optimistic
     in createConnection s tempId response fa ta fh th
          = (rolled, [CreateConnectionRequest fa ta fh th True], Inl e)
        \<and> connections optimistic
            = connections s @ [\<lparr>conn_id = tempId, fromAgent = fa, fromHandle = fh,
                                 toAgent = ta, toHandle = th\<rparr>]
        \<and> rolled = s\<lparr>connections := filter (\<lambda>x. conn_id x \<noteq> tempId) (connections s),
                      error := Some (error_message e ''Failed to create connection'')\<rparr>
        \<and> (connections rolled = connections s
             \<longleftrightarrow> tempId \<notin> conn_id ` set (connections s))
        \<and> (\<forall>ok. response = Responded ok \<longrightarrow>
              error rolled = Some ''Failed to create connection'')
        \<and> (\<forall>m. response = NetworkError m \<longrightarrow> error rolled = Some m)))
   \<and> (api_deleteConnection response = Inl e'
        \<and> find (\<lambda>x. conn_id x = cid) (connections s) = Some c \<longrightarrow>
      (let optimistic = removeConnectionOptimistically cid s;
           rolled = restoreConnection c e' optimistic
       in deleteConnection s response cid = (rolled, [DeleteConnectionRequest cid], Inl e')
          \<and> connections optimistic = filter (\<lambda>x. conn_id x \<noteq> cid) (connections s)
          \<and> c \<notin> set (connections optimistic)
          \<and> rolled = s\<lparr>connections := filter (\<lambda>x. conn_id x \<noteq> cid) (connections s) @ [c],
                        error := Some (error_message e' ''Failed to delete connection'')\<rparr>
          \<and> (\<forall>xs. connections s = xs @ [c] \<and> cid \<notin> conn_id ` set xs \<longrightarrow>
                connections rolled = connections s)
          \<and> (distinct (map conn_id (connections s)) \<longrightarrow>
                mset (connections rolled) = mset (connections s))
          \<and> (\<forall>ok. response = Responded ok \<longrightarrow>
                error rolled = Some ''Failed to delete connection'')
          \<and> (\<forall>m. response = NetworkError m \<longrightarrow> error rolled = Some m)))"
proof (intro conjI impI)
  assume a: "api_createConnection response = Inl e
      \<and> find (sameEndpoints fa ta fh th) (connections s) = None"
  define optimistic where "optimistic = addOptimisticConnection tempId fa ta fh th s"
  define rolled where "rolled = removeFailedConnection tempId e optimistic"
  have run: "createConnection s tempId response fa ta fh th
          = (rolled, [CreateConnectionRequest fa ta fh th True], Inl e)"
    using a createConnection_failed [of response e fa ta fh th s tempId]
    by (simp add: rolled_def optimistic_def)
  have opt: "connections optimistic
            = connections s @ [\<lparr>conn_id = tempId, fromAgent = fa, fromHandle = fh,
                                 toAgent = ta, toHandle = th\<rparr>]"
    by (simp add: optimistic_def addOptimisticConnection_def)
  have whole: "rolled = s\<lparr>connections := filter (\<lambda>x. conn_id x \<noteq> tempId) (connections s),
                      error := Some (error_message e ''Failed to create connection'')\<rparr>"
    by (simp add: rolled_def optimistic_def removeFailedConnection_def
        addOptimisticConnection_def)
  have same: "connections rolled = connections s
             \<longleftrightarrow> tempId \<notin> conn_id ` set (connections s)"
    unfolding whole by (auto simp: filter_id_conv)
  have err: "(\<forall>ok. response = Responded ok \<longrightarrow>
              error rolled = Some ''Failed to create connection'')
        \<and> (\<forall>m. response = NetworkError m \<longrightarrow> error rolled = Some m)"
    using a api_createConnection_error [of response e] unfolding whole by simp
  show "let optimistic = addOptimisticConnection tempId fa ta fh th s;
         rolled = removeFailedConnection tempId e optimistic
     in createConnection s tempId response fa ta fh th
          = (rolled, [CreateConnectionRequest fa ta fh th True], Inl e)
        \<and> connections optimistic
            = connections s @ [\<lparr>conn_id = tempId, fromAgent = fa, fromHandle = fh,
                                 toAgent = ta, toHandle = th\<rparr>]
        \<and> rolled = s\<lparr>connections := filter (\<lambda>x. conn_id x \<noteq> tempId) (connections s),
                      error := Some (error_message e ''Failed to create connection'')\<rparr>
        \<and> (connections rolled = connections s
             \<longleftrightarrow> tempId \<notin> conn_id ` set (connections s))
        \<and> (\<forall>ok. response = Responded ok \<longrightarrow>
              error rolled = Some ''Failed to create connection'')
        \<and> (\<forall>m. response = NetworkError m \<longrightarrow> error rolled = Some m)"
    unfolding Let_def optimistic_def [symmetric] rolled_def [symmetric]
    using run opt whole same err by (intro conjI) (elim conjE, assumption)+
next
  assume a: "api_deleteConnection response = Inl e'
        \<and> find (\<lambda>x. conn_id x = cid) (connections s) = Some c"
  define optimistic where "optimistic = removeConnectionOptimistically cid s"
  define rolled where "rolled = restoreConnection c e' optimistic"
  have found: "conn_id c = cid" "c \<in> set (connections s)"
    using a find_SomeD [of "\<lambda>x. conn_id x = cid" "connections s" c] by simp_all
  have run: "deleteConnection s response cid = (rolled, [DeleteConnectionRequest cid], Inl e')"
    using a deleteConnection_failed [of response e' cid s c]
    by (simp add: rolled_def optimistic_def)
  have opt: "connections optimistic = filter (\<lambda>x. conn_id x \<noteq> cid) (connections s)"
    by (simp add: optimistic_def removeConnectionOptimistically_def)
  have gone: "c \<notin> set (connections optimistic)"
    unfolding opt using found(1) by simp
  have whole: "rolled = s\<lparr>connections := filter (\<lambda>x. conn_id x \<noteq> cid) (connections s) @ [c],
                        error := Some (error_message e' ''Failed to delete connection'')\<rparr>"
    by (simp add: rolled_def optimistic_def restoreConnection_def
        removeConnectionOptimistically_def)
  have last: "\<forall>xs. connections s = xs @ [c] \<and> cid \<notin> conn_id ` set xs \<longrightarrow>
                connections rolled = connections s"
    unfolding whole using found(1) by (auto simp: filter_fresh_id)
  have perm: "distinct (map conn_id (connections s)) \<longrightarrow>
                mset (connections rolled) = mset (connections s)"
    unfolding whole using a find_distinct_mset [of "connections s" cid c] by simp
  have err: "(\<forall>ok. response = Responded ok \<longrightarrow>
                error rolled = Some ''Failed to delete connection'')
          \<and> (\<forall>m. response = NetworkError m \<longrightarrow> error rolled = Some m)"
    using a api_deleteConnection_error [of response e'] unfolding whole by simp
  show "let optimistic = removeConnectionOptimistically cid s;
           rolled = restoreConnection c e' optimistic
       in deleteConnection s response cid = (rolled, [DeleteConnectionRequest cid], Inl e')
          \<and> connections optimistic = filter (\<lambda>x. conn_id x \<noteq> cid) (connections s)
          \<and> c \<notin> set (connections optimistic)
          \<and> rolled = s\<lparr>connections := filter (\<lambda>x. conn_id x \<noteq> cid) (connections s) @ [c],
                        error := Some (error_message e' ''Failed to delete connection'')\<rparr>
          \<and> (\<forall>xs. connections s = xs @ [c] \<and> cid \<notin> conn_id ` set xs \<longrightarrow>
                connections rolled = connections s)
          \<and> (distinct (map conn_id (connections s)) \<longrightarrow>
                mset (connections rolled) = mset (connections s))
          \<and> (\<forall>ok. response = Responded ok \<longrightarrow>
                error rolled = Some ''Failed to delete connection'')
          \<and> (\<forall>m. response = NetworkError m \<longrightarrow> error rolled = Some m)"
    unfolding Let_def optimistic_def [symmetric] rolled_def [symmetric]
    using run opt gone whole last perm err by (intro conjI) (elim conjE, assumption)+
qed

text \<open>
  The theorem at the example state with a response that is not \<^verbatim>\<open>ok\<close>. Creating
  the relation from \<open>a2\<close> to \<open>a1\<close> under the new id \<open>temp-1\<close> and deleting the
  relation \<open>r1\<close>, the last and only one with its id, both end with the one relation
  of the example state and with the fixed message in the error field.
\<close>

theorem rollback_after_failed_round_trip_witness:
  "api_createConnection (Responded False) = Inl (JsError ''Failed to create connection'')
   \<and> find (sameEndpoints ''a2'' ''a1'' ''right'' ''left'') (connections ex_state) = None
   \<and> ''temp-1'' \<notin> conn_id ` set (connections ex_state)
   \<and> api_deleteConnection (Responded False) = Inl (JsError ''Failed to delete connection'')
   \<and> find (\<lambda>x. conn_id x = ''r1'') (connections ex_state) = Some ex_conn
   \<and> connections ex_state = [] @ [ex_conn]
   \<and> createConnection ex_state ''temp-1'' (Responded False) ''a2'' ''a1'' ''right'' ''left''
       = (ex_state\<lparr>error := Some ''Failed to create connection''\<rparr>,
          [CreateConnectionRequest ''a2'' ''a1'' ''right'' ''left'' True],
          Inl (JsError ''Failed to create connection''))
   \<and> deleteConnection ex_state (Responded False) ''r1''
       = (ex_state\<lparr>error := Some ''Failed to delete connection''\<rparr>,
          [DeleteConnectionRequest ''r1''], Inl (JsError ''Failed to delete connection''))"
proof -
  have h1: "api_createConnection (Responded False) = Inl (JsError ''Failed to create connection'')
            \<and> find (sameEndpoints ''a2'' ''a1'' ''right'' ''left'') (connections ex_state) = None"
    by (simp add: api_createConnection_def ex_state_def ex_conn_def sameEndpoints_def)
  have fresh: "''temp-1'' \<notin> conn_id ` set (connections ex_state)"
    by (simp add: ex_state_def ex_conn_def)
  have h2: "api_deleteConnection (Responded False) = Inl (JsError ''Failed to delete connection'')
            \<and> find (\<lambda>x. conn_id x = ''r1'') (connections ex_state) = Some ex_conn"
    by (simp add: api_deleteConnection_def ex_state_def ex_conn_def)
  have cs: "connections ex_state = [] @ [ex_conn]"
    by (simp add: ex_state_def)
  have keep: "ex_state\<lparr>connections := connections ex_state\<rparr> = ex_state"
    by simp
  note inst = rollback_after_failed_round_trip
    [where response = "Responded False" and s = ex_state
       and e = "JsError ''Failed to create connection''"
       and fa = "''a2''" and ta = "''a1''" and fh = "''right''" and th = "''left''"
       and tempId = "''temp-1''"
       and e' = "JsError ''Failed to delete connection''" and cid = "''r1''" and c = ex_conn]
  have p1: "let optimistic = addOptimisticConnection ''temp-1'' ''a2'' ''a1'' ''right'' ''left''
                               ex_state;
                rolled = removeFailedConnection ''temp-1''
                           (JsError ''Failed to create connection'') optimistic
            in createConnection ex_state ''temp-1'' (Responded False)
                 ''a2'' ''a1'' ''right'' ''left''
                 = (rolled, [CreateConnectionRequest ''a2'' ''a1'' ''right'' ''left'' True],
                    Inl (JsError ''Failed to create connection''))
               \<and> connections optimistic
                   = connections ex_state
                     @ [\<lparr>conn_id = ''temp-1'', fromAgent = ''a2'', fromHandle = ''right'',
                         toAgent = ''a1'', toHandle = ''left''\<rparr>]
               \<and> rolled = ex_state\<lparr>connections := filter (\<lambda>x. conn_id x \<noteq> ''temp-1'')
                                                            (connections ex_state),
                                    error := Some (error_message
                                      (JsError ''Failed to create connection'')
                                      ''Failed to create connection'')\<rparr>
               \<and> (connections rolled = connections ex_state
                    \<longleftrightarrow> ''temp-1'' \<notin> conn_id ` set (connections ex_state))
               \<and> (\<forall>ok. Responded False = Responded ok \<longrightarrow>
                     error rolled = Some ''Failed to create connection'')
               \<and> (\<forall>m. Responded False = NetworkError m \<longrightarrow> error rolled = Some m)"
    using inst [THEN conjunct1] h1 by (rule mp)
  have p2: "let optimistic = removeConnectionOptimistically ''r1'' ex_state;
                rolled = restoreConnection ex_conn (JsError ''Failed to delete connection'')
                           optimistic
            in deleteConnection ex_state (Responded False) ''r1''
                 = (rolled, [DeleteConnectionRequest ''r1''],
                    Inl (JsError ''Failed to delete connection''))
               \<and> connections optimistic
                   = filter (\<lambda>x. conn_id x \<noteq> ''r1'') (connections ex_state)
               \<and> ex_conn \<notin> set (connections optimistic)
               \<and> rolled = ex_state\<lparr>connections := filter (\<lambda>x. conn_id x \<noteq> ''r1'')
                                                            (connections ex_state) @ [ex_conn],
                                    error := Some (error_message
                                      (JsError ''Failed to delete connection'')
                                      ''Failed to delete connection'')\<rparr>
               \<and> (\<forall>xs. connections ex_state = xs @ [ex_conn] \<and> ''r1'' \<notin> conn_id ` set xs \<longrightarrow>
                     connections rolled = connections ex_state)
               \<and> (distinct (map conn_id (connections ex_state)) \<longrightarrow>
                     mset (connections rolled) = mset (connections ex_state))
               \<and> (\<forall>ok. Responded False = Responded ok \<longrightarrow>
                     error rolled = Some ''Failed to delete connection'')
               \<and> (\<forall>m. Responded False = NetworkError m \<longrightarrow> error rolled = Some m)"
    using inst [THEN conjunct2] h2 by (rule mp)
  have flt: "filter (\<lambda>x. conn_id x \<noteq> ''temp-1'') (connections ex_state) = connections ex_state"
    using fresh by (rule filter_fresh_id)
  have q1: "createConnection ex_state ''temp-1'' (Responded False) ''a2'' ''a1'' ''right'' ''left''
       = (ex_state\<lparr>error := Some ''Failed to create connection''\<rparr>,
          [CreateConnectionRequest ''a2'' ''a1'' ''right'' ''left'' True],
          Inl (JsError ''Failed to create connection''))"
    using p1 unfolding Let_def by (simp add: flt)
  have flt2: "filter (\<lambda>x. conn_id x \<noteq> ''r1'') (connections ex_state) @ [ex_conn]
                = connections ex_state"
    by (simp add: ex_state_def ex_conn_def)
  have q2: "deleteConnection ex_state (Responded False) ''r1''
       = (ex_state\<lparr>error := Some ''Failed to delete connection''\<rparr>,
          [DeleteConnectionRequest ''r1''], Inl (JsError ''Failed to delete connection''))"
    using p2 unfolding Let_def by (simp add: flt2)
  from h1 fresh h2 cs q1 q2 show ?thesis
    by (simp only: simp_thms)
qed

text \<open>
  C5 as stated fails in three ways. A failed deletion of \<open>r1\<close> from the relations
  \<open>r1\<close>, \<open>r2\<close> ends with \<open>r2\<close>, \<open>r1\<close>: the record comes back at the end, not at
  its place. A state that the reducer builds from the same \<^verbatim>\<open>connection_added\<close>
  event applied twice holds the relation twice, and a failed deletion ends with it
  once. And a rejection with an empty message leaves an empty text in the error field.
\<close>

theorem rollback_counterexample:
  "connections (fst (deleteConnection (ex_state\<lparr>connections := [ex_conn, ex_conn2]\<rparr>)
                        (Responded False) ''r1''))
     = [ex_conn2, ex_conn]
   \<and> [ex_conn2, ex_conn] \<noteq> [ex_conn, ex_conn2]
   \<and> connections (handleWebSocketMessage [] ex_rand ex_msg_added
        (handleWebSocketMessage [] ex_rand ex_msg_added initialState))
     = [apiConnectionToUIConnection ex_api_conn, apiConnectionToUIConnection ex_api_conn]
   \<and> connections (fst (deleteConnection
        (handleWebSocketMessage [] ex_rand ex_msg_added
           (handleWebSocketMessage [] ex_rand ex_msg_added initialState))
        (Responded False) ''r2''))
     = [apiConnectionToUIConnection ex_api_conn]
   \<and> error (fst (createConnection ex_state ''temp-1'' (NetworkError [])
                    ''a2'' ''a1'' ''right'' ''left'')) = Some []"
proof -
  have order: "connections (fst (deleteConnection (ex_state\<lparr>connections := [ex_conn, ex_conn2]\<rparr>)
                        (Responded False) ''r1''))
     = [ex_conn2, ex_conn]"
    by (simp add: deleteConnection_def api_deleteConnection_def ex_conn_def ex_conn2_def
        Let_def)
  have differ: "[ex_conn2, ex_conn] \<noteq> [ex_conn, ex_conn2]"
    by (simp add: ex_conn_def ex_conn2_def)
  have h1: "msg_type ex_msg_added = Some ''connection_added''"
    and h2: "msg_connection ex_msg_added = Some ex_api_conn"
    by (simp_all add: ex_msg_added_def bare_message_def)
  have twice: "connections (handleWebSocketMessage [] ex_rand ex_msg_added
        (handleWebSocketMessage [] ex_rand ex_msg_added initialState))
     = [apiConnectionToUIConnection ex_api_conn, apiConnectionToUIConnection ex_api_conn]"
    by (simp add: connection_added_eq [OF h1 h2] initialState_def)
  have once: "connections (fst (deleteConnection
        (handleWebSocketMessage [] ex_rand ex_msg_added
           (handleWebSocketMessage [] ex_rand ex_msg_added initialState))
        (Responded False) ''r2''))
     = [apiConnectionToUIConnection ex_api_conn]"
    by (simp add: connection_added_eq [OF h1 h2] initialState_def deleteConnection_def
        api_deleteConnection_def apiConnectionToUIConnection_def ex_api_conn_def Let_def)
  have empty: "error (fst (createConnection ex_state ''temp-1'' (NetworkError [])
                    ''a2'' ''a1'' ''right'' ''left'')) = Some []"
    by (simp add: createConnection_def api_createConnection_def ex_state_def ex_conn_def
        sameEndpoints_def Let_def)
  from order differ twice once empty show ?thesis
    by (intro conjI)
qed

text \<open>
  C10, the code at the failing input. The store holds a position for \<open>a1\<close> and the
  server accepts the deletion: \<^verbatim>\<open>deleteAgent\<close> leaves the store as it is, so the
  position is still there, stores the message of the \<^verbatim>\<open>ReferenceError\<close> in the
  error field and throws it again.
\<close>

theorem deleteAgent_keeps_position_and_throws:
  "deleteAgent ex_state ex_store (Responded True) ''a1''
     = (ex_state\<lparr>error := Some ''setAgentPositions is not defined''\<rparr>, ex_store,
        [DeleteAgentRequest ''a1''], Inl (ReferenceError ''setAgentPositions is not defined''))
   \<and> getStoredPosition ex_store ''a1'' = Some \<lparr>pos_x = 100, pos_y = 100\<rparr>"
  by (simp add: deleteAgent_def api_deleteAgent_def setAgentPositions_def Let_def
      ex_store_def storeAgentPosition_def getStoredPosition_def parsePosition_def
      position_key_def)

section \<open>Properties of the position allocator\<close>

lemma isOccupied_iff:
  "isOccupied ps x y \<longleftrightarrow> (\<exists>p \<in> set ps. \<bar>pos_x p - x\<bar> < 50 \<and> \<bar>pos_y p - y\<bar> < 50)"
  by (simp add: isOccupied_def list_ex_iff)

lemma gridScan_Some:
  assumes "gridScan ps = Some c"
  shows "c \<in> set gridCells" and "\<not> isOccupied ps (pos_x c) (pos_y c)"
  using assms by (auto simp: gridScan_def find_Some_iff)

lemma getAllStoredPositions_setItem:
  "startsWith k ''agent_position_'' \<Longrightarrow> parsePosition v = Some p
   \<Longrightarrow> p \<in> set (getAllStoredPositions (setItem ls k v))"
  by (induction ls) (auto split: option.splits)

lemma stored_position_listed:
  "\<lparr>pos_x = x, pos_y = y\<rparr> \<in> set (getAllStoredPositions (storeAgentPosition ls aid x y))"
  unfolding storeAgentPosition_def
  by (rule getAllStoredPositions_setItem)
     (simp_all add: startsWith_def position_key_def parsePosition_def)

lemma upt_0_10: "[0..<10] = [0, 1, 2, 3, 4, 5, 6, 7, 8, 9 :: nat]"
  by code_simp

lemma gridScan_empty: "gridScan [] = Some \<lparr>pos_x = 100, pos_y = 100\<rparr>"
  by (simp add: gridScan_def gridCells_def isOccupied_def upt_0_10)

lemma getAllStoredPositions_ex_store:
  "getAllStoredPositions ex_store = [\<lparr>pos_x = 100, pos_y = 100\<rparr>]"
  by (simp add: ex_store_def storeAgentPosition_def position_key_def startsWith_def
      parsePosition_def)

lemma gridScan_ex_store:
  "gridScan (getAllStoredPositions ex_store) = Some \<lparr>pos_x = 300, pos_y = 100\<rparr>"
  unfolding getAllStoredPositions_ex_store
  by (simp add: gridScan_def gridCells_def isOccupied_def upt_0_10)

lemma getStoredPosition_ex_store_a2: "getStoredPosition ex_store ''a2'' = None"
  by (simp add: ex_store_def storeAgentPosition_def getStoredPosition_def position_key_def)

text \<open>
  C9, as the code has it. An entity without a stored position that is given a cell of
  the grid lies at least 50 units away, in at least one of the two axes, from every
  position that the store holds at that moment. So two entities allocated one after
  the other are that far apart when the position of the first was stored before the
  second was allocated.
\<close>

theorem grid_allocation_separation:
  assumes "getStoredPosition ls (api_id a2) = None"
    and "gridScan (getAllStoredPositions ls) \<noteq> None"
  shows "(let A2 = apiAgentToUIAgent ls rnd a2 in
            \<lparr>pos_x = ag_x A2, pos_y = ag_y A2\<rparr> \<in> set gridCells
          \<and> (\<forall>p \<in> set (getAllStoredPositions ls).
                50 \<le> \<bar>pos_x p - ag_x A2\<bar> \<or> 50 \<le> \<bar>pos_y p - ag_y A2\<bar>)
          \<and> (\<forall>ls0 aid x1 y1. ls = storeAgentPosition ls0 aid x1 y1 \<longrightarrow>
                50 \<le> \<bar>x1 - ag_x A2\<bar> \<or> 50 \<le> \<bar>y1 - ag_y A2\<bar>))"
proof -
  from assms(2) obtain c where c: "gridScan (getAllStoredPositions ls) = Some c"
    by blast
  have pos: "ag_x (apiAgentToUIAgent ls rnd a2) = pos_x c"
      "ag_y (apiAgentToUIAgent ls rnd a2) = pos_y c"
    using assms(1) c by (simp_all add: apiAgentToUIAgent_def generateDefaultPosition_def)
  have whole: "\<lparr>pos_x = pos_x c, pos_y = pos_y c\<rparr> = c"
    by (cases c) simp
  have cell: "\<lparr>pos_x = pos_x c, pos_y = pos_y c\<rparr> \<in> set gridCells"
    unfolding whole by (rule gridScan_Some(1) [OF c])
  have free: "\<forall>p \<in> set (getAllStoredPositions ls).
                50 \<le> \<bar>pos_x p - pos_x c\<bar> \<or> 50 \<le> \<bar>pos_y p - pos_y c\<bar>"
    using gridScan_Some(2) [OF c] by (auto simp: isOccupied_iff not_less)
  have stored: "\<forall>ls0 aid x1 y1. ls = storeAgentPosition ls0 aid x1 y1 \<longrightarrow>
                50 \<le> \<bar>x1 - pos_x c\<bar> \<or> 50 \<le> \<bar>y1 - pos_y c\<bar>"
  proof (intro allI impI)
    fix ls0 aid x1 y1
    assume "ls = storeAgentPosition ls0 aid x1 y1"
    then have "\<lparr>pos_x = x1, pos_y = y1\<rparr> \<in> set (getAllStoredPositions ls)"
      by (simp add: stored_position_listed)
    with free have "50 \<le> \<bar>pos_x \<lparr>pos_x = x1, pos_y = y1\<rparr> - pos_x c\<bar>
        \<or> 50 \<le> \<bar>pos_y \<lparr>pos_x = x1, pos_y = y1\<rparr> - pos_y c\<bar>"
      by (rule bspec)
    then show "50 \<le> \<bar>x1 - pos_x c\<bar> \<or> 50 \<le> \<bar>y1 - pos_y c\<bar>"
      by simp
  qed
  show ?thesis
    unfolding Let_def pos using cell free stored by (intro conjI)
qed

text \<open>
  The theorem at the example store, which holds (100, 100) for \<open>a1\<close>: the second
  agent is given the next cell, (300, 100), which is 200 units away in \<open>x\<close>.
\<close>

theorem grid_allocation_separation_witness:
  "getStoredPosition ex_store (api_id ex_agent2) = None
   \<and> gridScan (getAllStoredPositions ex_store) \<noteq> None
   \<and> ex_store = storeAgentPosition [] ''a1'' 100 100
   \<and> ag_x (apiAgentToUIAgent ex_store (0, 0) ex_agent2) = 300
   \<and> ag_y (apiAgentToUIAgent ex_store (0, 0) ex_agent2) = 100
   \<and> (50 \<le> \<bar>100 - ag_x (apiAgentToUIAgent ex_store (0, 0) ex_agent2)\<bar>
        \<or> 50 \<le> \<bar>100 - ag_y (apiAgentToUIAgent ex_store (0, 0) ex_agent2)\<bar>)"
proof -
  have h1: "getStoredPosition ex_store (api_id ex_agent2) = None"
    by (simp add: ex_agent2_def getStoredPosition_ex_store_a2)
  have h2: "gridScan (getAllStoredPositions ex_store) \<noteq> None"
    by (simp add: gridScan_ex_store)
  have st: "ex_store = storeAgentPosition [] ''a1'' 100 100"
    by (simp add: ex_store_def)
  have x: "ag_x (apiAgentToUIAgent ex_store (0, 0) ex_agent2) = 300"
    and y: "ag_y (apiAgentToUIAgent ex_store (0, 0) ex_agent2) = 100"
    using h1 by (simp_all add: apiAgentToUIAgent_def generateDefaultPosition_def
        gridScan_ex_store)
  from grid_allocation_separation [OF h1 h2, of "(0, 0)"]
  have "\<forall>ls0 aid x1 y1. ex_store = storeAgentPosition ls0 aid x1 y1 \<longrightarrow>
          50 \<le> \<bar>x1 - ag_x (apiAgentToUIAgent ex_store (0, 0) ex_agent2)\<bar>
          \<or> 50 \<le> \<bar>y1 - ag_y (apiAgentToUIAgent ex_store (0, 0) ex_agent2)\<bar>"
    unfolding Let_def by (elim conjE)
  then have "ex_store = storeAgentPosition [] ''a1'' 100 100 \<longrightarrow>
          50 \<le> \<bar>100 - ag_x (apiAgentToUIAgent ex_store (0, 0) ex_agent2)\<bar>
          \<or> 50 \<le> \<bar>100 - ag_y (apiAgentToUIAgent ex_store (0, 0) ex_agent2)\<bar>"
    by (elim allE)
  with st have "50 \<le> \<bar>100 - ag_x (apiAgentToUIAgent ex_store (0, 0) ex_agent2)\<bar>
          \<or> 50 \<le> \<bar>100 - ag_y (apiAgentToUIAgent ex_store (0, 0) ex_agent2)\<bar>"
    by (elim impE)
  with h1 h2 st x y show ?thesis
    by (intro conjI)
qed

text \<open>
  C9 as stated fails. With an empty store, the snapshot of two agents without stored
  positions places both at (100, 100): nothing stores an allocated position, so the
  scan finds the same cell again. And with the first position stored, the second agent
  is placed at (300, 100), which differs from (100, 100) by 0 in \<open>y\<close>: the scan asks
  for 50 units in one axis, not in each.
\<close>

theorem grid_allocation_counterexample:
  "getStoredPosition [] (api_id ex_agent1) = None
   \<and> getStoredPosition [] (api_id ex_agent2) = None
   \<and> map (\<lambda>a. (ag_id a, ag_x a, ag_y a))
          (agents (handleWebSocketMessage [] ex_rand ex_msg_initial initialState))
       = [(''a1'', 100, 100), (''a2'', 100, 100)]
   \<and> ag_x (apiAgentToUIAgent ex_store (0, 0) ex_agent2) = 300
   \<and> ag_y (apiAgentToUIAgent ex_store (0, 0) ex_agent2) = 100
   \<and> \<not> 50 \<le> \<bar>100 - ag_y (apiAgentToUIAgent ex_store (0, 0) ex_agent2)\<bar>"
proof -
  have n: "getStoredPosition [] (api_id ex_agent1) = None"
      "getStoredPosition [] (api_id ex_agent2) = None"
    by (simp_all add: getStoredPosition_def)
  have a: "apiAgentToUIAgent [] (0, 0) ex_agent1 =
        \<lparr>ag_id = ''a1'', ag_x = 100, ag_y = 100, ag_width = 120, ag_height = 80,
         ag_label = ''Alpha'', ag_selected = False, ag_model = ''gpt-4'', ag_prompt = [],
         ag_status = Some Running, ag_url = None, ag_error = None\<rparr>"
    by (simp add: apiAgentToUIAgent_def getStoredPosition_def generateDefaultPosition_def
        gridScan_empty ex_agent1_def)
  have b: "apiAgentToUIAgent [] (0, 0) ex_agent2 =
        \<lparr>ag_id = ''a2'', ag_x = 100, ag_y = 100, ag_width = 120, ag_height = 80,
         ag_label = ''Alpha'', ag_selected = False, ag_model = ''gpt-4'', ag_prompt = [],
         ag_status = Some Running, ag_url = None, ag_error = None\<rparr>"
    by (simp add: apiAgentToUIAgent_def getStoredPosition_def generateDefaultPosition_def
        gridScan_empty ex_agent1_def ex_agent2_def)
  have s: "map (\<lambda>a. (ag_id a, ag_x a, ag_y a))
          (agents (handleWebSocketMessage [] ex_rand ex_msg_initial initialState))
       = [(''a1'', 100, 100), (''a2'', 100, 100)]"
    by (simp add: handleWebSocketMessage_def dispatchMessage_def ex_msg_initial_def
        bare_message_def ex_rand_def a b)
  have h1: "getStoredPosition ex_store (api_id ex_agent2) = None"
    by (simp add: ex_agent2_def getStoredPosition_ex_store_a2)
  have x: "ag_x (apiAgentToUIAgent ex_store (0, 0) ex_agent2) = 300"
    and y: "ag_y (apiAgentToUIAgent ex_store (0, 0) ex_agent2) = 100"
    using h1 by (simp_all add: apiAgentToUIAgent_def generateDefaultPosition_def
        gridScan_ex_store)
  have d: "\<not> 50 \<le> \<bar>100 - ag_y (apiAgentToUIAgent ex_store (0, 0) ex_agent2)\<bar>"
    by (simp add: y)
  from n s x y d show ?thesis
    by (intro conjI)
qed

section \<open>Properties of the connection manager\<close>

text \<open>
  C1, the code at the failing input. The manager has one observer and two failed
  attempts behind it when the socket opens: the handler resets the counter, throws at
  the call of \<^verbatim>\<open>startHeartbeat\<close>, and so sets no heartbeat handle and notifies no
  observer.
\<close>

theorem ws_onopen_throws_before_fanout:
  "wsCallbacks ex_manager = [7]
   \<and> ws_onopen ex_manager
       = (ex_manager\<lparr>reconnectAttempts := 0, isReconnecting := False\<rparr>, [],
          Some (TypeError ''this.startHeartbeat is not a function''))
   \<and> heartbeatInterval (fst (ws_onopen ex_manager)) = None"
  by (simp add: ws_onopen_def startHeartbeat_def ex_manager_def newManager_def Let_def)

text \<open>
  What the teardown does on its own. When the reconnect handle is not the number 0, it
  clears the timer whose handle the field holds, closes the socket with the code
  1000, empties the observers and resets the counter; it sets no timer, and a close
  event that follows at once sets none either. Removing the last observer is this
  teardown.
\<close>

lemma disconnectWebSocket_effects:
  assumes "reconnectTimeout m \<noteq> Some 0"
  shows "(case disconnectWebSocket m of
            (m', effs) \<Rightarrow>
              reconnectTimeout m' = None \<and> ws m' = None \<and> wsCallbacks m' = []
            \<and> reconnectAttempts m' = 0 \<and> \<not> isReconnecting m' \<and> \<not> connectionCleanup m'
            \<and> (\<forall>t. reconnectTimeout m = Some t \<longrightarrow>
                  ClearTimeout t \<in> set effs \<and> t \<notin> set (pendingTimers effs pending))
            \<and> (\<forall>sock. ws m = Some sock \<longrightarrow>
                  CloseSocket sock 1000 ''Deliberate disconnect'' \<in> set effs)
            \<and> (\<forall>h' delay. SetTimeout h' delay \<notin> set effs)
            \<and> ws_onclose h m' = (m', []))
       \<and> (filter (\<lambda>cb. cb \<noteq> callback) (wsCallbacks m) = [] \<longrightarrow>
            removeWebSocketCallback m callback = disconnectWebSocket m)"
proof (intro conjI impI)
  show "case disconnectWebSocket m of
            (m', effs) \<Rightarrow>
              reconnectTimeout m' = None \<and> ws m' = None \<and> wsCallbacks m' = []
            \<and> reconnectAttempts m' = 0 \<and> \<not> isReconnecting m' \<and> \<not> connectionCleanup m'
            \<and> (\<forall>t. reconnectTimeout m = Some t \<longrightarrow>
                  ClearTimeout t \<in> set effs \<and> t \<notin> set (pendingTimers effs pending))
            \<and> (\<forall>sock. ws m = Some sock \<longrightarrow>
                  CloseSocket sock 1000 ''Deliberate disconnect'' \<in> set effs)
            \<and> (\<forall>h' delay. SetTimeout h' delay \<notin> set effs)
            \<and> ws_onclose h m' = (m', [])"
    using assms
    by (cases "reconnectTimeout m"; cases "ws m")
       (simp_all add: disconnectWebSocket_def ws_onclose_def Let_def)
next
  assume "filter (\<lambda>cb. cb \<noteq> callback) (wsCallbacks m) = []"
  then show "removeWebSocketCallback m callback = disconnectWebSocket m"
    by (cases "reconnectTimeout m"; cases "ws m")
       (simp_all add: removeWebSocketCallback_def disconnectWebSocket_def Let_def)
qed

text \<open>
  C8, the code at the failing input. The observer 7 subscribes (socket 1), is removed,
  which tears the connection down, and subscribes again (socket 2) before the close
  event of socket 1 arrives. The teardown has set \<^verbatim>\<open>connectionCleanup\<close> back to
  false by then and an observer is registered, so the handler takes the deliberate
  closure for a drop and sets the reconnect timer 5. Socket 2 then drops and its close
  event sets the timer 6 over the handle 5. Removing the observer again tears down:
  it clears the timer 6, the only handle it holds, and closes socket 2 with the code
  1000. The timer 5 is still pending after that teardown, and when it fires it
  registers the observer 7 again and opens socket 3.
\<close>

theorem teardown_leaves_timer_pending:
  "connectWebSocket ex_ready 1 newManager 7 = (ex_subscribed, [OpenSocket 1])
   \<and> removeWebSocketCallback ex_subscribed 7
       = (newManager, [CloseSocket 1 1000 ''Deliberate disconnect''])
   \<and> connectWebSocket ex_ready 2 newManager 7 = (ex_resubscribed, [OpenSocket 2])
   \<and> ws_onclose 5 ex_resubscribed = (ex_after_close1, [SetTimeout 5 3000])
   \<and> ws_onclose 6 ex_after_close1 = (ex_after_close2, [SetTimeout 6 3000])
   \<and> removeWebSocketCallback ex_after_close2 7
       = (newManager, [ClearTimeout 6, CloseSocket 2 1000 ''Deliberate disconnect''])
   \<and> pendingTimers
         [OpenSocket 1, CloseSocket 1 1000 ''Deliberate disconnect'', OpenSocket 2,
          SetTimeout 5 3000, SetTimeout 6 3000, ClearTimeout 6,
          CloseSocket 2 1000 ''Deliberate disconnect''] []
       = [5]
   \<and> reconnectTimerFired ex_ready 3 newManager 7
       = (newManager\<lparr>ws := Some 3, wsCallbacks := [7], reconnectAttempts := 1,
                     isReconnecting := True\<rparr>, [OpenSocket 3])
   \<and> heartbeatInterval ex_after_close2 = None"
proof -
  have c1: "connectWebSocket ex_ready 1 newManager 7 = (ex_subscribed, [OpenSocket 1])"
    by (simp add: connectWebSocket_def addCallback_def newManager_def ex_subscribed_def Let_def)
  have t1: "removeWebSocketCallback ex_subscribed 7
       = (newManager, [CloseSocket 1 1000 ''Deliberate disconnect''])"
    by (simp add: removeWebSocketCallback_def disconnectWebSocket_def newManager_def
        ex_subscribed_def Let_def)
  have c2: "connectWebSocket ex_ready 2 newManager 7 = (ex_resubscribed, [OpenSocket 2])"
    by (simp add: connectWebSocket_def addCallback_def newManager_def ex_resubscribed_def
        Let_def)
  have e1: "ws_onclose 5 ex_resubscribed = (ex_after_close1, [SetTimeout 5 3000])"
    by (simp add: ws_onclose_def newManager_def ex_resubscribed_def ex_after_close1_def
        Let_def)
  have e2: "ws_onclose 6 ex_after_close1 = (ex_after_close2, [SetTimeout 6 3000])"
    by (simp add: ws_onclose_def newManager_def ex_after_close1_def ex_after_close2_def
        Let_def)
  have t2: "removeWebSocketCallback ex_after_close2 7
       = (newManager, [ClearTimeout 6, CloseSocket 2 1000 ''Deliberate disconnect''])"
    by (simp add: removeWebSocketCallback_def disconnectWebSocket_def newManager_def
        ex_after_close2_def Let_def)
  have p: "pendingTimers
         [OpenSocket 1, CloseSocket 1 1000 ''Deliberate disconnect'', OpenSocket 2,
          SetTimeout 5 3000, SetTimeout 6 3000, ClearTimeout 6,
          CloseSocket 2 1000 ''Deliberate disconnect''] []
       = [5]"
    by simp
  have f: "reconnectTimerFired ex_ready 3 newManager 7
       = (newManager\<lparr>ws := Some 3, wsCallbacks := [7], reconnectAttempts := 1,
                     isReconnecting := True\<rparr>, [OpenSocket 3])"
    by (simp add: reconnectTimerFired_def connectWebSocket_def addCallback_def newManager_def
        Let_def)
  have hb: "heartbeatInterval ex_after_close2 = None"
    by (simp add: ex_after_close2_def newManager_def)
  from c1 t1 c2 e1 e2 t2 p f hb show ?thesis
    by (intro conjI)
qed

end
